theory Spec2Isabelle
  imports Complex_Main
begin

section \<open>Values\<close>

text \<open>
  A Python \<open>str\<close> is a sequence of Unicode code points, and \<open>len\<close> counts code points;
  it is modelled as a list of code points. \<open>ascii\<close> embeds an ASCII literal; the
  Cyrillic texts of the source are written as their code points.
\<close>

type_synonym str = "nat list"

definition ascii :: "string \<Rightarrow> str" where
  "ascii s = map of_char s"

text \<open>
  A decoded JSON value, as \<open>request.data\<close> delivers it. A \<open>dict\<close> is the list of its
  items in insertion order (keys distinct); \<open>JFloat q\<close> is the float nearest to the
  rational \<open>q\<close>.
\<close>

datatype json =
    JNull
  | JBool bool
  | JInt int
  | JFloat rat
  | JStr str
  | JArr "json list"
  | JObj "(str \<times> json) list"

fun is_dict :: "json \<Rightarrow> bool" where
  "is_dict (JObj kvs) = True"
| "is_dict _ = False"

text \<open>The decimal digits of a natural number, as an f-string renders an \<open>int\<close>.\<close>

fun digits :: "nat \<Rightarrow> str" where
  "digits n = (if n < 10 then [48 + n] else digits (n div 10) @ [48 + n mod 10])"

declare digits.simps [simp del]

section \<open>The models of the core service (tables/models.py)\<close>

text \<open>
  \<open>created_at\<close> and \<open>updated_at\<close> are set by the ORM from the wall clock and are left
  out; a table is kept as the list of its rows in creation order.
\<close>

record TableSchema =
  ts_id :: nat
  ts_name :: str
  ts_description :: str
  ts_fields_config :: json
  ts_is_active :: bool

record TableData =
  td_id :: nat
  td_schema :: nat
  td_data :: json
  td_source_service :: str
  td_source_id :: str

record database =
  schemas :: "TableSchema list"
  rows :: "TableData list"
  schema_seq :: nat
  row_seq :: nat

text \<open>Exceptions that the views catch, and the detail of a field's validation error.\<close>

datatype exn =
    AttributeError
  | NotNullViolation
  | StorageFault nat

datatype field_error =
    Required
  | Null
  | Invalid
  | Blank
  | MaxLength nat
  | Prohibited
  | NotAList
  | NotADict
  | NotUnique
  | AtIndex nat field_error
  | Raised str

type_synonym errors = "(str \<times> field_error list) list"

text \<open>
  What the views use of Python, Django, the REST framework and the database, none of
  which is code of this repository. Every definition below takes these as a parameter
  and every theorem holds for all of them.
  \<^item> \<open>py_str\<close>: \<open>str(v)\<close> of a decoded JSON value;
  \<^item> \<open>py_strip\<close>: \<open>str.strip()\<close>;
  \<^item> \<open>prohibited\<close>: the character validators every \<open>CharField\<close> of the REST
    framework carries besides its length bound;
  \<^item> \<open>to_boolean\<close>: what a \<open>BooleanField\<close> reads in a value that is not a JSON boolean
    (\<open>None\<close>: not a boolean);
  \<^item> \<open>icontains\<close>: the database's \<open>name__icontains\<close> lookup (value, pattern);
  \<^item> \<open>db_fault\<close>: a failure of the storage engine on the write of a row (a length
    limit the backend enforces, a lost connection), other than the NOT NULL
    constraints, with a code for the exception it raises;
  \<^item> \<open>sequences_roll_back\<close>: whether the backend's id sequences are transactional;
  \<^item> \<open>exc_text\<close>: \<open>str(e)\<close> of a caught exception.
\<close>

record platform =
  py_str :: "json \<Rightarrow> str"
  py_strip :: "str \<Rightarrow> str"
  prohibited :: "str \<Rightarrow> bool"
  to_boolean :: "json \<Rightarrow> bool option"
  icontains :: "str \<Rightarrow> str \<Rightarrow> bool"
  db_fault :: "database \<Rightarrow> TableData \<Rightarrow> nat option"
  sequences_roll_back :: bool
  exc_text :: "exn \<Rightarrow> str"

section \<open>Serializer fields (api/serializers.py)\<close>

text \<open>
  \<open>serializers.CharField(max_length=n)\<close> on the value found under the field's key
  (\<open>None\<close>: the key is absent): a blank string is refused first (or read as the empty
  string where \<open>allow_blank\<close>), then a missing or null value; a string or a number is
  converted with \<open>str\<close> and trimmed; the validators run on the trimmed value and
  their errors are collected: those given to the field (\<open>validators\<close>), the length
  bound (\<open>max_length = None\<close>: no bound), the prohibited characters.
\<close>

definition run_validators ::
  "platform \<Rightarrow> (str \<Rightarrow> field_error list) \<Rightarrow> nat option \<Rightarrow> str \<Rightarrow> field_error list + str" where
  "run_validators P validators max_length s =
     (let too_long = (case max_length of
                        None \<Rightarrow> []
                      | Some n \<Rightarrow> if length s > n then [MaxLength n] else []);
          bad_chars = (if prohibited P s then [Prohibited] else []);
          errors = validators s @ too_long @ bad_chars
      in if errors = [] then Inr s else Inl errors)"

definition to_internal_value ::
  "platform \<Rightarrow> (str \<Rightarrow> field_error list) \<Rightarrow> nat option \<Rightarrow> bool \<Rightarrow> str \<Rightarrow> field_error list + str" where
  "to_internal_value P validators max_length allow_blank s =
     (if py_strip P s = [] then (if allow_blank then Inr [] else Inl [Blank])
      else run_validators P validators max_length (py_strip P s))"

definition CharField ::
  "platform \<Rightarrow> (str \<Rightarrow> field_error list) \<Rightarrow> nat option \<Rightarrow> bool \<Rightarrow> json option
     \<Rightarrow> field_error list + str" where
  "CharField P validators max_length allow_blank v =
     (case v of
        None \<Rightarrow> Inl [Required]
      | Some JNull \<Rightarrow> Inl [Null]
      | Some (JStr s) \<Rightarrow> to_internal_value P validators max_length allow_blank s
      | Some (JInt n) \<Rightarrow> to_internal_value P validators max_length allow_blank (py_str P (JInt n))
      | Some (JFloat q) \<Rightarrow> to_internal_value P validators max_length allow_blank (py_str P (JFloat q))
      | Some _ \<Rightarrow> Inl [Invalid])"

definition no_validators :: "str \<Rightarrow> field_error list" where
  "no_validators s = []"

text \<open>\<open>serializers.DictField()\<close> as the child of a list: an object passes unchanged.\<close>

fun DictField :: "json \<Rightarrow> field_error list + json" where
  "DictField (JObj kvs) = Inr (JObj kvs)"
| "DictField JNull = Inl [Null]"
| "DictField _ = Inl [NotADict]"

text \<open>
  \<open>serializers.ListField(child=serializers.DictField())\<close>: the value must be a list;
  the errors of the children are collected under their indices. An empty list passes
  the field itself.
\<close>

fun child_errors :: "nat \<Rightarrow> json list \<Rightarrow> field_error list" where
  "child_errors i [] = []"
| "child_errors i (x # xs) =
     (case DictField x of
        Inl es \<Rightarrow> map (AtIndex i) es @ child_errors (Suc i) xs
      | Inr _ \<Rightarrow> child_errors (Suc i) xs)"

definition ListField :: "json option \<Rightarrow> field_error list + json" where
  "ListField v =
     (case v of
        None \<Rightarrow> Inl [Required]
      | Some JNull \<Rightarrow> Inl [Null]
      | Some (JArr xs) \<Rightarrow> if child_errors 0 xs = [] then Inr (JArr xs) else Inl (child_errors 0 xs)
      | Some _ \<Rightarrow> Inl [NotAList])"

text \<open>\<open>PopulateTableSerializer.validate_data\<close>, with the messages it raises.\<close>

definition msg_data_not_list :: str where
  "msg_data_not_list = ascii ''data '' @ [1076, 1086, 1083, 1078, 1077, 1085] @ ascii '' ''
     @ [1073, 1099, 1090, 1100] @ ascii '' '' @ [1084, 1072, 1089, 1089, 1080, 1074, 1086, 1084]"

definition msg_data_empty :: str where
  "msg_data_empty = ascii ''data '' @ [1085, 1077] @ ascii '' '' @ [1084, 1086, 1078, 1077, 1090]
     @ ascii '' '' @ [1073, 1099, 1090, 1100] @ ascii '' '' @ [1087, 1091, 1089, 1090, 1099, 1084]"

definition msg_data_item :: str where
  "msg_data_item = [1050, 1072, 1078, 1076, 1099, 1081] @ ascii '' ''
     @ [1101, 1083, 1077, 1084, 1077, 1085, 1090] @ ascii '' data ''
     @ [1076, 1086, 1083, 1078, 1077, 1085] @ ascii '' '' @ [1073, 1099, 1090, 1100] @ ascii '' ''
     @ [1086, 1073, 1098, 1077, 1082, 1090, 1086, 1084]"

definition validate_data :: "json \<Rightarrow> str + json list" where
  "validate_data v =
     (case v of
        JArr items \<Rightarrow>
          if length items = 0 then Inl msg_data_empty
          else if list_ex (\<lambda>item. \<not> is_dict item) items then Inl msg_data_item
          else Inr items
      | _ \<Rightarrow> Inl msg_data_not_list)"

text \<open>
  \<open>PopulateTableSerializer(data=request.data).is_valid()\<close>: the body must be an object;
  each field is validated in the order declared, \<open>validate_data\<close> runs on a value that
  passed its field, and the errors of all fields are reported together.
\<close>

definition field_data :: "json option \<Rightarrow> field_error list + json list" where
  "field_data v =
     (case ListField v of
        Inl es \<Rightarrow> Inl es
      | Inr l \<Rightarrow> (case validate_data l of Inl m \<Rightarrow> Inl [Raised m] | Inr items \<Rightarrow> Inr items))"

definition errors_of :: "str \<Rightarrow> field_error list + 'a \<Rightarrow> errors" where
  "errors_of k r = (case r of Inl es \<Rightarrow> [(k, es)] | Inr _ \<Rightarrow> [])"

definition PopulateTableSerializer :: "platform \<Rightarrow> json \<Rightarrow> errors + (str \<times> json list)" where
  "PopulateTableSerializer P body =
     (case body of
        JObj kvs \<Rightarrow>
          (let source_service = CharField P no_validators (Some 50) False
                                  (map_of kvs (ascii ''source_service''));
               data = field_data (map_of kvs (ascii ''data''))
           in case (source_service, data) of
                (Inr s, Inr d) \<Rightarrow> Inr (s, d)
              | _ \<Rightarrow> Inl (errors_of (ascii ''source_service'') source_service
                          @ errors_of (ascii ''data'') data))
      | JNull \<Rightarrow> Inl [(ascii ''non_field_errors'', [Null])]
      | _ \<Rightarrow> Inl [(ascii ''non_field_errors'', [Invalid])])"

section \<open>The schema view set (api/views.py)\<close>

text \<open>
  A request carries its query parameters (\<open>None\<close>: absent; \<open>schema\<close> as the number it
  is read as) and its decoded body. A response is a body and a status, as
  \<open>Response(body, status=...)\<close> builds it; the bodies are those the views return
  (\<open>Populated\<close>: \<open>message\<close>, \<open>count\<close>, \<open>data\<close>), a row being rendered by
  \<open>TableDataSerializer\<close> with the name of its schema, and \<open>Not_found\<close> is the
  framework's answer to the \<open>Http404\<close> of \<open>get_object\<close>.
\<close>

record request =
  query_search :: "str option"
  query_schema :: "nat option"
  query_source_service :: "str option"
  request_data :: json

datatype body =
    Not_found
  | Field_errors errors
  | Populated str nat "(TableData \<times> str) list"
  | Error str
  | Message str
  | Entries "(TableData \<times> str) list"
  | Entry TableData str
  | Schema TableSchema

datatype response = Response (content: body) (status_code: nat)

text \<open>
  \<open>TableSchemaViewSet.get_queryset\<close>: the active schemas, narrowed by a non-empty
  \<open>search\<close> parameter, newest first. \<open>get_object\<close>, which every detail action calls
  first, fetches the schema of the URL's \<open>pk\<close> from that queryset and answers 404
  (\<open>None\<close>) when it has none. Strings are compared code point by code point.
\<close>

definition get_queryset :: "platform \<Rightarrow> database \<Rightarrow> request \<Rightarrow> TableSchema list" where
  "get_queryset P db req =
     (let queryset = filter ts_is_active (schemas db);
          queryset = (case query_search req of
                        None \<Rightarrow> queryset
                      | Some search \<Rightarrow>
                          if search \<noteq> [] then filter (\<lambda>t. icontains P (ts_name t) search) queryset
                          else queryset)
      in rev queryset)"

definition get_object :: "platform \<Rightarrow> database \<Rightarrow> request \<Rightarrow> nat \<Rightarrow> TableSchema option" where
  "get_object P db req pk = find (\<lambda>t. ts_id t = pk) (get_queryset P db req)"

text \<open>
  \<open>TableData.objects.create(schema, data, source_service, source_id)\<close>. The column
  \<open>source_id\<close> is a \<open>CharField\<close> without \<open>null=True\<close>: a value other than a string is
  stored as its \<open>str\<close>, and \<open>None\<close> violates the NOT NULL constraint. A failing INSERT
  has drawn its id from the sequence.
\<close>

definition to_python :: "platform \<Rightarrow> json \<Rightarrow> str option" where
  "to_python P v = (case v of JNull \<Rightarrow> None | JStr s \<Rightarrow> Some s | _ \<Rightarrow> Some (py_str P v))"

definition TableData_create ::
  "platform \<Rightarrow> database \<Rightarrow> nat \<Rightarrow> json \<Rightarrow> str \<Rightarrow> json \<Rightarrow> (exn \<times> database) + (TableData \<times> database)" where
  "TableData_create P db schema entry source_service source_id =
     (case to_python P source_id of
        None \<Rightarrow> Inl (NotNullViolation, db\<lparr>row_seq := Suc (row_seq db)\<rparr>)
      | Some sid \<Rightarrow>
          (let row = \<lparr>td_id = Suc (row_seq db), td_schema = schema, td_data = entry,
                      td_source_service = source_service, td_source_id = sid\<rparr>
           in case db_fault P db row of
                Some code \<Rightarrow> Inl (StorageFault code, db\<lparr>row_seq := Suc (row_seq db)\<rparr>)
              | None \<Rightarrow> Inr (row, db\<lparr>rows := rows db @ [row], row_seq := Suc (row_seq db)\<rparr>)))"

text \<open>\<open>entry.get(key, default)\<close>; a value that is not a dict has no \<open>get\<close>.\<close>

definition entry_get :: "json \<Rightarrow> str \<Rightarrow> json \<Rightarrow> exn + json" where
  "entry_get entry k dflt =
     (case entry of
        JObj kvs \<Rightarrow> (case map_of kvs k of None \<Rightarrow> Inr dflt | Some v \<Rightarrow> Inr v)
      | _ \<Rightarrow> Inl AttributeError)"

text \<open>The loop of \<open>populate\<close> over \<open>data_list\<close>, stopping at the first exception.\<close>

fun create_entries ::
  "platform \<Rightarrow> TableSchema \<Rightarrow> str \<Rightarrow> json list \<Rightarrow> database \<Rightarrow> TableData list
     \<Rightarrow> (exn \<times> database) + (TableData list \<times> database)" where
  "create_entries P schema source_service [] db created_entries = Inr (created_entries, db)"
| "create_entries P schema source_service (entry # rest) db created_entries =
     (case entry_get entry (ascii ''id'') (JStr []) of
        Inl e \<Rightarrow> Inl (e, db)
      | Inr source_id \<Rightarrow>
          (case TableData_create P db (ts_id schema) entry source_service source_id of
             Inl failure \<Rightarrow> Inl failure
           | Inr (table_data, db') \<Rightarrow>
               create_entries P schema source_service rest db' (created_entries @ [table_data])))"

text \<open>
  Leaving \<open>transaction.atomic()\<close> by an exception restores the tables as they were when
  the block was entered; the id sequence is restored where the backend does so. The
  \<open>except Exception\<close> of \<open>populate\<close> then answers 500 with the text of the exception.
  (The rendering of the created rows, which follows the block inside the same \<open>try\<close>,
  is taken not to fail.)
\<close>

definition rollback :: "platform \<Rightarrow> database \<Rightarrow> database \<Rightarrow> database" where
  "rollback P db failed =
     (if sequences_roll_back P then db else db\<lparr>row_seq := row_seq failed\<rparr>)"

definition msg_created_prefix :: str where
  "msg_created_prefix = [1059, 1089, 1087, 1077, 1096, 1085, 1086] @ ascii '' ''
     @ [1089, 1086, 1079, 1076, 1072, 1085, 1086] @ ascii '' ''"

definition msg_records :: str where
  "msg_records = ascii '' '' @ [1079, 1072, 1087, 1080, 1089, 1077, 1081]"

definition msg_create_error :: str where
  "msg_create_error = [1054, 1096, 1080, 1073, 1082, 1072] @ ascii '' '' @ [1087, 1088, 1080]
     @ ascii '' '' @ [1089, 1086, 1079, 1076, 1072, 1085, 1080, 1080] @ msg_records @ ascii '': ''"

definition populate :: "platform \<Rightarrow> database \<Rightarrow> request \<Rightarrow> nat \<Rightarrow> response \<times> database" where
  "populate P db req pk =
     (case get_object P db req pk of
        None \<Rightarrow> (Response Not_found 404, db)
      | Some schema \<Rightarrow>
          (case PopulateTableSerializer P (request_data req) of
             Inl errors \<Rightarrow> (Response (Field_errors errors) 400, db)
           | Inr (source_service, data_list) \<Rightarrow>
               (case create_entries P schema source_service data_list db [] of
                  Inl (e, failed) \<Rightarrow>
                    (Response (Error (msg_create_error @ exc_text P e)) 500, rollback P db failed)
                | Inr (created_entries, db') \<Rightarrow>
                    (Response
                       (Populated
                          (msg_created_prefix @ digits (length created_entries) @ msg_records)
                          (length created_entries)
                          (map (\<lambda>table_data. (table_data, ts_name schema)) created_entries))
                       201,
                     db'))))"

text \<open>
  \<open>TableSchemaViewSet.data\<close>: the rows of the schema, newest first (of which a
  paginator, where the deployment configures one, returns a page).
\<close>

definition data_entries :: "database \<Rightarrow> TableSchema \<Rightarrow> TableData list" where
  "data_entries db schema = rev (filter (\<lambda>r. td_schema r = ts_id schema) (rows db))"

definition TableSchemaViewSet_data :: "platform \<Rightarrow> database \<Rightarrow> request \<Rightarrow> nat \<Rightarrow> response" where
  "TableSchemaViewSet_data P db req pk =
     (case get_object P db req pk of
        None \<Rightarrow> Response Not_found 404
      | Some schema \<Rightarrow>
          Response (Entries (map (\<lambda>r. (r, ts_name schema)) (data_entries db schema))) 200)"

text \<open>
  \<open>TableSchemaViewSet.clear_data\<close>: counts the rows of the schema, deletes them, and
  reports the count in its message.
\<close>

definition msg_deleted_prefix :: str where
  "msg_deleted_prefix = [1059, 1076, 1072, 1083, 1077, 1085, 1086] @ ascii '' ''"

definition msg_deleted_from :: str where
  "msg_deleted_from = msg_records @ ascii '' '' @ [1080, 1079] @ ascii '' ''
     @ [1089, 1093, 1077, 1084, 1099] @ ascii '' '' @ [34]"

definition clear_data :: "platform \<Rightarrow> database \<Rightarrow> request \<Rightarrow> nat \<Rightarrow> response \<times> database" where
  "clear_data P db req pk =
     (case get_object P db req pk of
        None \<Rightarrow> (Response Not_found 404, db)
      | Some schema \<Rightarrow>
          (let deleted_count = length (filter (\<lambda>r. td_schema r = ts_id schema) (rows db));
               db' = db\<lparr>rows := filter (\<lambda>r. td_schema r \<noteq> ts_id schema) (rows db)\<rparr>
           in (Response
                 (Message (msg_deleted_prefix @ digits deleted_count @ msg_deleted_from
                           @ ts_name schema @ [34]))
                 200,
               db')))"

section \<open>The schema serializer and the creation of a schema\<close>

text \<open>\<open>TableSchemaSerializer.validate_fields_config\<close>, with the messages it raises.\<close>

definition msg_config_not_object :: str where
  "msg_config_not_object = ascii ''fields_config '' @ [1076, 1086, 1083, 1078, 1077, 1085]
     @ ascii '' '' @ [1073, 1099, 1090, 1100] @ ascii '' ''
     @ [1086, 1073, 1098, 1077, 1082, 1090, 1086, 1084]"

definition msg_no_fields_key :: str where
  "msg_no_fields_key = [1054, 1090, 1089, 1091, 1090, 1089, 1090, 1074, 1091, 1077, 1090]
     @ ascii '' '' @ [1082, 1083, 1102, 1095] @ ascii '' '' @ [39] @ ascii ''fields'' @ [39]"

definition msg_fields_not_list :: str where
  "msg_fields_not_list = [39] @ ascii ''fields'' @ [39] @ ascii '' ''
     @ [1076, 1086, 1083, 1078, 1077, 1085] @ ascii '' '' @ [1073, 1099, 1090, 1100] @ ascii '' ''
     @ [1084, 1072, 1089, 1089, 1080, 1074, 1086, 1084]"

definition msg_field_not_object :: str where
  "msg_field_not_object = [1050, 1072, 1078, 1076, 1086, 1077] @ ascii '' ''
     @ [1087, 1086, 1083, 1077] @ ascii '' '' @ [1076, 1086, 1083, 1078, 1085, 1086] @ ascii '' ''
     @ [1073, 1099, 1090, 1100] @ ascii '' '' @ [1086, 1073, 1098, 1077, 1082, 1090, 1086, 1084]"

definition msg_field_must_contain :: "str \<Rightarrow> str" where
  "msg_field_must_contain key = [1055, 1086, 1083, 1077] @ ascii '' ''
     @ [1076, 1086, 1083, 1078, 1085, 1086] @ ascii '' ''
     @ [1089, 1086, 1076, 1077, 1088, 1078, 1072, 1090, 1100] @ ascii '' '' @ [39] @ key @ [39]"

definition required_keys :: "str list" where
  "required_keys = [ascii ''name'', ascii ''type'']"

fun check_required_keys :: "(str \<times> json) list \<Rightarrow> str list \<Rightarrow> str option" where
  "check_required_keys field [] = None"
| "check_required_keys field (key # keys) =
     (if map_of field key = None then Some (msg_field_must_contain key)
      else check_required_keys field keys)"

fun check_fields :: "json list \<Rightarrow> str option" where
  "check_fields [] = None"
| "check_fields (field # rest) =
     (case field of
        JObj kvs \<Rightarrow>
          (case check_required_keys kvs required_keys of
             Some m \<Rightarrow> Some m
           | None \<Rightarrow> check_fields rest)
      | _ \<Rightarrow> Some msg_field_not_object)"

definition validate_fields_config :: "json \<Rightarrow> str + json" where
  "validate_fields_config v =
     (case v of
        JObj kvs \<Rightarrow>
          (case map_of kvs (ascii ''fields'') of
             None \<Rightarrow> Inl msg_no_fields_key
           | Some (JArr field_list) \<Rightarrow>
               (case check_fields field_list of Some m \<Rightarrow> Inl m | None \<Rightarrow> Inr v)
           | Some _ \<Rightarrow> Inl msg_fields_not_list)
      | _ \<Rightarrow> Inl msg_config_not_object)"

text \<open>
  \<open>TableSchemaSerializer\<close> is a \<open>ModelSerializer\<close>; its writable fields follow the
  declarations of the model:
  \<^item> \<open>name\<close>, from \<open>CharField(max_length=100, unique=True)\<close>: required, not blank, with
    the uniqueness validator over all schemas, active or not;
  \<^item> \<open>description\<close>, from \<open>TextField(blank=True)\<close>: optional, may be blank;
  \<^item> \<open>fields_config\<close>, from \<open>JSONField()\<close>: required, not null, then
    \<open>validate_fields_config\<close>;
  \<^item> \<open>is_active\<close>, from \<open>BooleanField(default=True)\<close>: optional.
  A field that is absent and optional is left to the default of the model (\<open>None\<close>).
\<close>

definition UniqueValidator :: "database \<Rightarrow> str \<Rightarrow> field_error list" where
  "UniqueValidator db s = (if list_ex (\<lambda>t. ts_name t = s) (schemas db) then [NotUnique] else [])"

definition field_description :: "platform \<Rightarrow> json option \<Rightarrow> field_error list + str option" where
  "field_description P v =
     (case v of
        None \<Rightarrow> Inr None
      | Some x \<Rightarrow> (case CharField P no_validators None True (Some x) of
                     Inl es \<Rightarrow> Inl es
                   | Inr s \<Rightarrow> Inr (Some s)))"

definition field_fields_config :: "json option \<Rightarrow> field_error list + json" where
  "field_fields_config v =
     (case v of
        None \<Rightarrow> Inl [Required]
      | Some JNull \<Rightarrow> Inl [Null]
      | Some x \<Rightarrow> (case validate_fields_config x of Inl m \<Rightarrow> Inl [Raised m] | Inr c \<Rightarrow> Inr c))"

definition field_is_active :: "platform \<Rightarrow> json option \<Rightarrow> field_error list + bool option" where
  "field_is_active P v =
     (case v of
        None \<Rightarrow> Inr None
      | Some JNull \<Rightarrow> Inl [Null]
      | Some (JBool b) \<Rightarrow> Inr (Some b)
      | Some x \<Rightarrow> (case to_boolean P x of None \<Rightarrow> Inl [Invalid] | Some b \<Rightarrow> Inr (Some b)))"

definition TableSchemaSerializer ::
  "platform \<Rightarrow> database \<Rightarrow> json \<Rightarrow> errors + (str \<times> str option \<times> json \<times> bool option)" where
  "TableSchemaSerializer P db body =
     (case body of
        JObj kvs \<Rightarrow>
          (let name = CharField P (UniqueValidator db) (Some 100) False (map_of kvs (ascii ''name''));
               description = field_description P (map_of kvs (ascii ''description''));
               fields_config = field_fields_config (map_of kvs (ascii ''fields_config''));
               is_active = field_is_active P (map_of kvs (ascii ''is_active''))
           in case (name, description, fields_config, is_active) of
                (Inr n, Inr d, Inr c, Inr a) \<Rightarrow> Inr (n, d, c, a)
              | _ \<Rightarrow> Inl (errors_of (ascii ''name'') name
                          @ errors_of (ascii ''description'') description
                          @ errors_of (ascii ''fields_config'') fields_config
                          @ errors_of (ascii ''is_active'') is_active))
      | JNull \<Rightarrow> Inl [(ascii ''non_field_errors'', [Null])]
      | _ \<Rightarrow> Inl [(ascii ''non_field_errors'', [Invalid])])"

text \<open>
  The \<open>create\<close> action that \<open>TableSchemaViewSet\<close> inherits from \<open>ModelViewSet\<close>: 400
  with the errors of the serializer, or the new schema is saved and returned with
  201. A failure of the storage engine on this INSERT is not modelled.
\<close>

definition TableSchemaViewSet_create :: "platform \<Rightarrow> database \<Rightarrow> request \<Rightarrow> response \<times> database" where
  "TableSchemaViewSet_create P db req =
     (case TableSchemaSerializer P db (request_data req) of
        Inl errors \<Rightarrow> (Response (Field_errors errors) 400, db)
      | Inr (name, description, fields_config, is_active) \<Rightarrow>
          (let schema = \<lparr>ts_id = Suc (schema_seq db), ts_name = name,
                         ts_description = (case description of None \<Rightarrow> [] | Some d \<Rightarrow> d),
                         ts_fields_config = fields_config,
                         ts_is_active = (case is_active of None \<Rightarrow> True | Some b \<Rightarrow> b)\<rparr>
           in (Response (Schema schema) 201,
               db\<lparr>schemas := schemas db @ [schema], schema_seq := Suc (schema_seq db)\<rparr>)))"

section \<open>The record view set (TableDataViewSet)\<close>

text \<open>
  \<open>TableDataViewSet.get_queryset\<close>: all rows, newest first, narrowed by the query
  parameters \<open>schema\<close> and \<open>source_service\<close>.
\<close>

definition TableDataViewSet_get_queryset :: "database \<Rightarrow> request \<Rightarrow> TableData list" where
  "TableDataViewSet_get_queryset db req =
     (let queryset = rev (rows db);
          queryset = (case query_schema req of
                        None \<Rightarrow> queryset
                      | Some schema_id \<Rightarrow> filter (\<lambda>r. td_schema r = schema_id) queryset);
          queryset = (case query_source_service req of
                        None \<Rightarrow> queryset
                      | Some source_service \<Rightarrow>
                          if source_service \<noteq> []
                          then filter (\<lambda>r. td_source_service r = source_service) queryset
                          else queryset)
      in queryset)"

text \<open>
  The view set is a \<open>ModelViewSet\<close>, registered by the router under \<open>data\<close>: besides
  \<open>list\<close> and \<open>retrieve\<close> it has the actions \<open>create\<close>, \<open>update\<close>, \<open>partial_update\<close>
  and \<open>destroy\<close> of the framework, and \<open>TableDataSerializer\<close> declares no read-only
  field among \<open>schema\<close>, \<open>data\<close>, \<open>source_service\<close> and \<open>source_id\<close>.
  \<open>partial_update\<close> is modelled for a body \<open>{"data": v}\<close>: the row of the URL's \<open>pk\<close>
  is fetched from the queryset (404 when it has none), \<open>v\<close> must not be null
  (\<open>JSONField\<close> of a column without \<open>null=True\<close>), and the row is saved with the new
  payload; a failure of the storage engine is an unhandled exception, answered 500.
\<close>

datatype action = List | Create | Retrieve | Update | Partial_update | Destroy

definition ModelViewSet :: "action list" where
  "ModelViewSet = [List, Create, Retrieve, Update, Partial_update, Destroy]"

definition TableDataViewSet_actions :: "action list" where
  "TableDataViewSet_actions = ModelViewSet"

definition schema_name :: "database \<Rightarrow> TableData \<Rightarrow> str" where
  "schema_name db r =
     (case find (\<lambda>t. ts_id t = td_schema r) (schemas db) of None \<Rightarrow> [] | Some t \<Rightarrow> ts_name t)"

definition TableDataViewSet_partial_update ::
  "platform \<Rightarrow> database \<Rightarrow> request \<Rightarrow> nat \<Rightarrow> json \<Rightarrow> response \<times> database" where
  "TableDataViewSet_partial_update P db req pk v =
     (case find (\<lambda>r. td_id r = pk) (TableDataViewSet_get_queryset db req) of
        None \<Rightarrow> (Response Not_found 404, db)
      | Some instance \<Rightarrow>
          (case v of
             JNull \<Rightarrow> (Response (Field_errors [(ascii ''data'', [Null])]) 400, db)
           | _ \<Rightarrow>
               (let updated = instance\<lparr>td_data := v\<rparr>
                in case db_fault P db updated of
                     Some code \<Rightarrow> (Response (Error (exc_text P (StorageFault code))) 500, db)
                   | None \<Rightarrow>
                       (Response (Entry updated (schema_name db updated)) 200,
                        db\<lparr>rows := map (\<lambda>r. if td_id r = pk then updated else r) (rows db)\<rparr>))))"

section \<open>Values of the producer services\<close>

text \<open>
  The values a canonical record holds before it is encoded: \<open>None\<close>, \<open>bool\<close>, \<open>int\<close>,
  \<open>float\<close>, \<open>str\<close> and \<open>Decimal\<close>. A \<open>Decimal\<close> is modelled by the rational it denotes;
  \<open>PFloat q\<close> is the float nearest to \<open>q\<close>, as \<open>float(d)\<close> of a Decimal \<open>d\<close> is.
\<close>

datatype pyval =
    PNone
  | PBool bool
  | PInt int
  | PFloat rat
  | PStr str
  | PDecimal rat

definition str_int :: "int \<Rightarrow> str" where
  "str_int i = (if i < 0 then 45 # digits (nat (- i)) else digits (nat i))"

text \<open>
  \<open>date.isoformat()\<close> is \<open>YYYY-MM-DD\<close>, zero-padded. \<open>datetime.isoformat()\<close> adds
  \<open>T\<close>, the time \<open>HH:MM:SS\<close>, the microseconds when they are not zero, and the UTC
  offset \<open>+HH:MM\<close> of an aware value (\<open>utcoffset\<close>, in minutes; \<open>None\<close>: naive).
\<close>

record date =
  year :: nat
  month :: nat
  day :: nat

record datetime =
  dt_date :: date
  hour :: nat
  minute :: nat
  second :: nat
  microsecond :: nat
  utcoffset :: "int option"

definition zfill :: "nat \<Rightarrow> str \<Rightarrow> str" where
  "zfill w s = replicate (w - length s) 48 @ s"

definition isoformat :: "date \<Rightarrow> str" where
  "isoformat d = zfill 4 (digits (year d)) @ [45] @ zfill 2 (digits (month d)) @ [45]
                 @ zfill 2 (digits (day d))"

definition isoformat_offset :: "int \<Rightarrow> str" where
  "isoformat_offset off =
     (if off < 0 then [45] else [43]) @ zfill 2 (digits (nat \<bar>off\<bar> div 60)) @ [58]
       @ zfill 2 (digits (nat \<bar>off\<bar> mod 60))"

definition datetime_isoformat :: "datetime \<Rightarrow> str" where
  "datetime_isoformat t =
     isoformat (dt_date t) @ [84] @ zfill 2 (digits (hour t)) @ [58] @ zfill 2 (digits (minute t))
       @ [58] @ zfill 2 (digits (second t))
       @ (if microsecond t \<noteq> 0 then [46] @ zfill 6 (digits (microsecond t)) else [])
       @ (case utcoffset t of None \<Rightarrow> [] | Some off \<Rightarrow> isoformat_offset off)"

text \<open>
  \<open>get_FOO_display()\<close> of a field with choices: the label of the stored code, and the
  stored value itself when it is none of the codes.
\<close>

definition get_display :: "(str \<times> str) list \<Rightarrow> str \<Rightarrow> str" where
  "get_display choices v = (case map_of choices v of None \<Rightarrow> v | Some label \<Rightarrow> label)"

text \<open>
  A primitive is a value that JSON has: every value but a \<open>Decimal\<close>. A record is
  primitive when all its values are.
\<close>

fun is_primitive :: "pyval \<Rightarrow> bool" where
  "is_primitive (PDecimal q) = False"
| "is_primitive v = True"

definition all_primitive :: "(str \<times> pyval) list \<Rightarrow> bool" where
  "all_primitive record = list_all is_primitive (map snd record)"

text \<open>
  \<open>requests.post(url, json=..., timeout=...)\<close> first encodes the body: the encoder of
  the standard library raises \<open>TypeError\<close> on a \<open>Decimal\<close> and nothing is sent
  (\<open>encodes_decimal\<close>: the producer has an encoder installed that accepts one). It
  then either returns the response of the remote (status and text) or raises: a
  \<open>RequestException\<close> (no connection, a timeout) or another exception. The network
  is what the remote does at each call and the log of the calls made.
\<close>

datatype post_result =
    Responded nat str
  | RequestException str
  | OtherException str

record http_request =
  url :: str
  json_source_service :: str
  json_data :: "(str \<times> pyval) list list"
  timeout :: nat

record network =
  remote :: "nat \<Rightarrow> post_result"
  sent :: "http_request list"
  encodes_decimal :: bool

definition msg_not_serializable :: str where
  "msg_not_serializable = ascii ''Object of type Decimal is not JSON serializable''"

definition requests_post :: "network \<Rightarrow> http_request \<Rightarrow> post_result \<times> network" where
  "requests_post net r =
     (if list_all all_primitive (json_data r) \<or> encodes_decimal net
      then (remote net (length (sent net)), net\<lparr>sent := sent net @ [r]\<rparr>)
      else (OtherException msg_not_serializable, net))"

section \<open>The user service (users/models.py, api/views.py)\<close>

definition DEPARTMENT_CHOICES :: "(str \<times> str) list" where
  "DEPARTMENT_CHOICES =
     [(ascii ''IT'', ascii ''IT '' @ [1086, 1090, 1076, 1077, 1083]),
      (ascii ''HR'', [1054, 1090, 1076, 1077, 1083] @ ascii '' '' @ [1082, 1072, 1076, 1088, 1086, 1074]),
      (ascii ''MARKETING'', [1052, 1072, 1088, 1082, 1077, 1090, 1080, 1085, 1075]),
      (ascii ''SALES'', [1055, 1088, 1086, 1076, 1072, 1078, 1080]),
      (ascii ''FINANCE'', [1060, 1080, 1085, 1072, 1085, 1089, 1099]),
      (ascii ''LEGAL'', [1070, 1088, 1080, 1076, 1080, 1095, 1077, 1089, 1082, 1080, 1081]
                        @ ascii '' '' @ [1086, 1090, 1076, 1077, 1083])]"

definition POSITION_CHOICES :: "(str \<times> str) list" where
  "POSITION_CHOICES =
     [(ascii ''JUNIOR_DEV'', ascii ''Junior '' @ [1088, 1072, 1079, 1088, 1072, 1073, 1086, 1090, 1095, 1080, 1082]),
      (ascii ''SENIOR_DEV'', ascii ''Senior '' @ [1088, 1072, 1079, 1088, 1072, 1073, 1086, 1090, 1095, 1080, 1082]),
      (ascii ''TEAM_LEAD'', [1058, 1080, 1084, 1083, 1080, 1076]),
      (ascii ''MANAGER'', [1052, 1077, 1085, 1077, 1076, 1078, 1077, 1088]),
      (ascii ''DIRECTOR'', [1044, 1080, 1088, 1077, 1082, 1090, 1086, 1088]),
      (ascii ''SPECIALIST'', [1057, 1087, 1077, 1094, 1080, 1072, 1083, 1080, 1089, 1090]),
      (ascii ''ANALYST'', [1040, 1085, 1072, 1083, 1080, 1090, 1080, 1082])]"

text \<open>A saved user (its \<open>id\<close> is set); the timestamps are left out.\<close>

record User =
  u_id :: nat
  u_username :: str
  u_email :: str
  u_first_name :: str
  u_last_name :: str
  u_department :: str
  u_position :: str
  u_salary :: "rat option"
  u_hire_date :: date
  u_is_active :: bool

definition full_name :: "User \<Rightarrow> str" where
  "full_name u = u_first_name u @ ascii '' '' @ u_last_name u"

definition User_to_table_data :: "User \<Rightarrow> (str \<times> pyval) list" where
  "User_to_table_data u =
     [(ascii ''id'', PStr (digits (u_id u))),
      (ascii ''full_name'', PStr (full_name u)),
      (ascii ''username'', PStr (u_username u)),
      (ascii ''email'', PStr (u_email u)),
      (ascii ''department'', PStr (get_display DEPARTMENT_CHOICES (u_department u))),
      (ascii ''position'', PStr (get_display POSITION_CHOICES (u_position u))),
      (ascii ''salary'', (case u_salary u of
                           None \<Rightarrow> PNone
                         | Some salary \<Rightarrow> if salary \<noteq> 0 then PFloat salary else PNone)),
      (ascii ''hire_date'', PStr (isoformat (u_hire_date u))),
      (ascii ''is_active'', PBool (u_is_active u))]"

text \<open>
  \<open>User.sync_to_core_service\<close>; \<open>CORE_SERVICE_URL\<close> is the setting of that name. Every
  exception is caught (and printed) and gives \<open>False\<close>.
\<close>

definition User_sync_to_core_service :: "str \<Rightarrow> network \<Rightarrow> User \<Rightarrow> bool \<times> network" where
  "User_sync_to_core_service CORE_SERVICE_URL net u =
     (case requests_post net
             \<lparr>url = CORE_SERVICE_URL @ ascii ''/api/schemas/1/populate/'',
              json_source_service = ascii ''user_service'',
              json_data = [User_to_table_data u],
              timeout = 5\<rparr> of
        (Responded status text, net') \<Rightarrow> (status = 201, net')
      | (RequestException e, net') \<Rightarrow> (False, net')
      | (OtherException e, net') \<Rightarrow> (False, net'))"

text \<open>
  \<open>UserViewSet.sync_to_core\<close>, on the result of \<open>SyncToCoreSerializer\<close> (its errors, or
  \<open>schema_id\<close> with its default filled in and \<open>user_ids\<close> when given) and the users in
  the order of the model, newest first. Only a \<open>RequestException\<close> is caught; another
  exception leaves the view unhandled.
\<close>

datatype sync_body =
    Sync_errors errors
  | Sync_error str
  | Synced str nat int
  | Core_error str str

datatype sync_response = Sync_response sync_body nat | Unhandled str

definition msg_synced :: str where
  "msg_synced = [1057, 1080, 1085, 1093, 1088, 1086, 1085, 1080, 1079, 1080, 1088, 1086, 1074, 1072, 1085, 1086]
     @ ascii '' ''"

definition msg_users :: str where
  "msg_users = ascii '' '' @ [1087, 1086, 1083, 1100, 1079, 1086, 1074, 1072, 1090, 1077, 1083, 1077, 1081]"

definition msg_core_error :: str where
  "msg_core_error = [1054, 1096, 1080, 1073, 1082, 1072] @ ascii '' Core Service: ''"

definition msg_no_connection :: str where
  "msg_no_connection = [1053, 1077] @ ascii '' '' @ [1091, 1076, 1072, 1083, 1086, 1089, 1100]
     @ ascii '' '' @ [1087, 1086, 1076, 1082, 1083, 1102, 1095, 1080, 1090, 1100, 1089, 1103]
     @ ascii '' '' @ [1082] @ ascii '' Core Service: ''"

definition msg_no_users :: str where
  "msg_no_users = [1053, 1077] @ ascii '' '' @ [1085, 1072, 1081, 1076, 1077, 1085, 1086]
     @ ascii '' '' @ [1087, 1086, 1083, 1100, 1079, 1086, 1074, 1072, 1090, 1077, 1083, 1077, 1081]
     @ ascii '' '' @ [1076, 1083, 1103] @ ascii '' ''
     @ [1089, 1080, 1085, 1093, 1088, 1086, 1085, 1080, 1079, 1072, 1094, 1080, 1080]"

definition UserViewSet_sync_to_core ::
  "str \<Rightarrow> User list \<Rightarrow> network \<Rightarrow> errors + (int \<times> int list option) \<Rightarrow> sync_response \<times> network" where
  "UserViewSet_sync_to_core CORE_SERVICE_URL all_users net validated =
     (case validated of
        Inl errors \<Rightarrow> (Sync_response (Sync_errors errors) 400, net)
      | Inr (schema_id, user_ids) \<Rightarrow>
          (let users = (case user_ids of
                          None \<Rightarrow> filter u_is_active all_users
                        | Some ids \<Rightarrow>
                            if ids \<noteq> []
                            then filter (\<lambda>u. int (u_id u) \<in> set ids \<and> u_is_active u) all_users
                            else filter u_is_active all_users)
           in if users = [] then (Sync_response (Sync_error msg_no_users) 404, net)
              else
                (let data_list = map User_to_table_data users
                 in case requests_post net
                           \<lparr>url = CORE_SERVICE_URL @ ascii ''/api/schemas/'' @ str_int schema_id
                                   @ ascii ''/populate/'',
                            json_source_service = ascii ''user_service'',
                            json_data = data_list,
                            timeout = 10\<rparr> of
                      (Responded status text, net') \<Rightarrow>
                        if status = 201
                        then (Sync_response
                                (Synced (msg_synced @ digits (length data_list) @ msg_users)
                                   (length data_list) schema_id) 200, net')
                        else (Sync_response (Core_error (msg_core_error @ digits status) text) 502, net')
                    | (RequestException e, net') \<Rightarrow>
                        (Sync_response (Sync_error (msg_no_connection @ e)) 503, net')
                    | (OtherException e, net') \<Rightarrow> (Unhandled e, net'))))"

section \<open>The product service (products/models.py)\<close>

text \<open>
  Of a category, the name and the parent; of a supplier, the name. A chain of parents
  is finite here; \<open>get_full_path\<close> follows it to the root.
\<close>

datatype Category = Category (c_name: str) (c_parent: "Category option")

record Supplier =
  s_name :: str

definition STATUS_CHOICES :: "(str \<times> str) list" where
  "STATUS_CHOICES =
     [(ascii ''ACTIVE'', [1040, 1082, 1090, 1080, 1074, 1077, 1085]),
      (ascii ''INACTIVE'', [1053, 1077, 1072, 1082, 1090, 1080, 1074, 1077, 1085]),
      (ascii ''DISCONTINUED'', [1057, 1085, 1103, 1090] @ ascii '' '' @ [1089] @ ascii '' ''
                               @ [1087, 1088, 1086, 1080, 1079, 1074, 1086, 1076, 1089, 1090, 1074, 1072]),
      (ascii ''OUT_OF_STOCK'', [1053, 1077, 1090] @ ascii '' '' @ [1074] @ ascii '' ''
                               @ [1085, 1072, 1083, 1080, 1095, 1080, 1080])]"

record Product =
  p_id :: nat
  p_name :: str
  p_sku :: str
  p_barcode :: "str option"
  p_description :: str
  p_category :: Category
  p_supplier :: "Supplier option"
  p_cost_price :: rat
  p_selling_price :: rat
  p_discount_price :: "rat option"
  p_stock_quantity :: int
  p_min_stock_level :: int
  p_max_stock_level :: "int option"
  p_weight :: "rat option"
  p_dimensions :: str
  p_status :: str
  p_is_featured :: bool
  p_created_at :: datetime

fun get_full_path :: "Category \<Rightarrow> str" where
  "get_full_path (Category name parent) =
     (case parent of
        Some p \<Rightarrow> get_full_path p @ ascii '' > '' @ name
      | None \<Rightarrow> name)"

text \<open>
  \<open>profit_margin\<close> is a \<open>Decimal\<close>, or the \<open>int\<close> 0 when a price is zero; \<open>round(x, 2)\<close>
  of a \<open>Decimal\<close> is the \<open>Decimal\<close> rounded half to even at two places (the precision
  of the decimal context in the division is not modelled).
\<close>

definition profit_margin :: "Product \<Rightarrow> pyval" where
  "profit_margin p =
     (if p_cost_price p \<noteq> 0 \<and> p_selling_price p \<noteq> 0
      then PDecimal ((p_selling_price p - p_cost_price p) / p_selling_price p * 100)
      else PInt 0)"

definition round_half_even :: "rat \<Rightarrow> int" where
  "round_half_even x =
     (let f = \<lfloor>x\<rfloor>; r = x - of_int f
      in if r < 1 / 2 then f else if r > 1 / 2 then f + 1 else if even f then f else f + 1)"

fun round2 :: "pyval \<Rightarrow> pyval" where
  "round2 (PDecimal q) = PDecimal (of_int (round_half_even (q * 100)) / 100)"
| "round2 v = v"

definition current_price :: "Product \<Rightarrow> rat" where
  "current_price p =
     (case p_discount_price p of
        Some discount \<Rightarrow> if discount \<noteq> 0 then discount else p_selling_price p
      | None \<Rightarrow> p_selling_price p)"

definition is_low_stock :: "Product \<Rightarrow> bool" where
  "is_low_stock p = (p_stock_quantity p \<le> p_min_stock_level p)"

definition stock_status :: "Product \<Rightarrow> str" where
  "stock_status p =
     (if p_stock_quantity p = 0
      then [1053, 1077, 1090] @ ascii '' '' @ [1074] @ ascii '' '' @ [1085, 1072, 1083, 1080, 1095, 1080, 1080]
      else if is_low_stock p
      then [1047, 1072, 1082, 1072, 1085, 1095, 1080, 1074, 1072, 1077, 1090, 1089, 1103]
      else [1042] @ ascii '' '' @ [1085, 1072, 1083, 1080, 1095, 1080, 1080])"

definition Product_to_table_data :: "Product \<Rightarrow> (str \<times> pyval) list" where
  "Product_to_table_data p =
     [(ascii ''id'', PStr (digits (p_id p))),
      (ascii ''name'', PStr (p_name p)),
      (ascii ''sku'', PStr (p_sku p)),
      (ascii ''barcode'', PStr (case p_barcode p of None \<Rightarrow> [] | Some b \<Rightarrow> b)),
      (ascii ''category'', PStr (get_full_path (p_category p))),
      (ascii ''supplier'', PStr (case p_supplier p of None \<Rightarrow> [] | Some s \<Rightarrow> s_name s)),
      (ascii ''cost_price'', PFloat (p_cost_price p)),
      (ascii ''selling_price'', PFloat (p_selling_price p)),
      (ascii ''current_price'', PFloat (current_price p)),
      (ascii ''profit_margin'', round2 (profit_margin p)),
      (ascii ''stock_quantity'', PInt (p_stock_quantity p)),
      (ascii ''stock_status'', PStr (stock_status p)),
      (ascii ''min_stock_level'', PInt (p_min_stock_level p)),
      (ascii ''weight'', (case p_weight p of
                           None \<Rightarrow> PNone
                         | Some weight \<Rightarrow> if weight \<noteq> 0 then PFloat weight else PNone)),
      (ascii ''dimensions'', PStr (p_dimensions p)),
      (ascii ''status'', PStr (get_display STATUS_CHOICES (p_status p))),
      (ascii ''is_featured'', PBool (p_is_featured p)),
      (ascii ''created_at'', PStr (datetime_isoformat (p_created_at p)))]"

text \<open>
  \<open>Product.sync_to_core_service(schema_id=2)\<close>: as the user's, to the schema given.
\<close>

definition Product_sync_to_core_service :: "str \<Rightarrow> network \<Rightarrow> Product \<Rightarrow> int \<Rightarrow> bool \<times> network" where
  "Product_sync_to_core_service CORE_SERVICE_URL net p schema_id =
     (case requests_post net
             \<lparr>url = CORE_SERVICE_URL @ ascii ''/api/schemas/'' @ str_int schema_id
                     @ ascii ''/populate/'',
              json_source_service = ascii ''product_service'',
              json_data = [Product_to_table_data p],
              timeout = 5\<rparr> of
        (Responded status text, net') \<Rightarrow> (status = 201, net')
      | (RequestException e, net') \<Rightarrow> (False, net')
      | (OtherException e, net') \<Rightarrow> (False, net'))"

text \<open>
  \<open>ProductViewSet.sync_to_core\<close>, on the result of the product service's
  \<open>SyncToCoreSerializer\<close> (its errors, or \<open>schema_id\<close> and \<open>include_inactive\<close> with
  their defaults filled in and \<open>product_ids\<close> when given) and the products in the
  order of the model, newest first; \<open>products_to_sync\<close> is the queryset it builds.
  Only a \<open>RequestException\<close> is caught.
\<close>

definition msg_products :: str where
  "msg_products = ascii '' '' @ [1090, 1086, 1074, 1072, 1088, 1086, 1074]"

definition msg_no_products :: str where
  "msg_no_products = [1053, 1077] @ ascii '' '' @ [1085, 1072, 1081, 1076, 1077, 1085, 1086]
     @ msg_products @ ascii '' '' @ [1076, 1083, 1103] @ ascii '' ''
     @ [1089, 1080, 1085, 1093, 1088, 1086, 1085, 1080, 1079, 1072, 1094, 1080, 1080]"

definition products_to_sync :: "Product list \<Rightarrow> int list option \<Rightarrow> bool \<Rightarrow> Product list" where
  "products_to_sync all_products product_ids include_inactive =
     (let queryset = all_products;
          queryset = (case product_ids of
                        None \<Rightarrow> queryset
                      | Some ids \<Rightarrow>
                          if ids \<noteq> [] then filter (\<lambda>p. int (p_id p) \<in> set ids) queryset
                          else queryset);
          queryset = (if \<not> include_inactive
                      then filter (\<lambda>p. p_status p = ascii ''ACTIVE'') queryset
                      else queryset)
      in queryset)"

definition ProductViewSet_sync_to_core ::
  "str \<Rightarrow> Product list \<Rightarrow> network \<Rightarrow> errors + (int \<times> int list option \<times> bool)
     \<Rightarrow> sync_response \<times> network" where
  "ProductViewSet_sync_to_core CORE_SERVICE_URL all_products net validated =
     (case validated of
        Inl errors \<Rightarrow> (Sync_response (Sync_errors errors) 400, net)
      | Inr (schema_id, product_ids, include_inactive) \<Rightarrow>
          (let queryset = products_to_sync all_products product_ids include_inactive
           in if queryset = [] then (Sync_response (Sync_error msg_no_products) 404, net)
              else
                (let data_list = map Product_to_table_data queryset
                 in case requests_post net
                           \<lparr>url = CORE_SERVICE_URL @ ascii ''/api/schemas/'' @ str_int schema_id
                                   @ ascii ''/populate/'',
                            json_source_service = ascii ''product_service'',
                            json_data = data_list,
                            timeout = 30\<rparr> of
                      (Responded status text, net') \<Rightarrow>
                        if status = 201
                        then (Sync_response
                                (Synced (msg_synced @ digits (length data_list) @ msg_products)
                                   (length data_list) schema_id) 200, net')
                        else (Sync_response (Core_error (msg_core_error @ digits status) text) 502, net')
                    | (RequestException e, net') \<Rightarrow>
                        (Sync_response (Sync_error (msg_no_connection @ e)) 503, net')
                    | (OtherException e, net') \<Rightarrow> (Unhandled e, net'))))"

section \<open>The vocabulary of the specification\<close>

text \<open>
  The conditions the specification names, written after its words, to state the
  properties below.
\<close>

text \<open>
  A request is malformed in \<open>data\<close> when \<open>data\<close> is not a list (or is absent), is
  empty, or has an element that is not an object; in \<open>source_service\<close> when it is
  missing or, once trimmed, longer than 50 characters.
\<close>

definition data_malformed :: "json option \<Rightarrow> bool" where
  "data_malformed v =
     (case v of
        Some (JArr xs) \<Rightarrow> xs = [] \<or> list_ex (\<lambda>x. \<not> is_dict x) xs
      | _ \<Rightarrow> True)"

definition source_service_malformed :: "platform \<Rightarrow> json option \<Rightarrow> bool" where
  "source_service_malformed P v =
     (case v of
        None \<Rightarrow> True
      | Some (JStr s) \<Rightarrow> length (py_strip P s) > 50
      | Some _ \<Rightarrow> False)"

text \<open>
  A schema is visible to a request when it is active and its name matches the
  \<open>search\<close> parameter, if the request carries a non-empty one.
\<close>

definition visible :: "platform \<Rightarrow> request \<Rightarrow> TableSchema \<Rightarrow> bool" where
  "visible P req t =
     (ts_is_active t \<and>
      (case query_search req of None \<Rightarrow> True | Some search \<Rightarrow> search = [] \<or> icontains P (ts_name t) search))"

text \<open>
  The \<open>source_id\<close> expected of an element: its \<open>"id"\<close> when present (as the string the
  column holds), the empty string otherwise. An element is stored as a row when the
  row references the schema, carries the producer label, the expected \<open>source_id\<close>,
  and the element itself as payload.
\<close>

definition expected_source_id :: "platform \<Rightarrow> json \<Rightarrow> str" where
  "expected_source_id P entry =
     (case entry of
        JObj kvs \<Rightarrow>
          (case map_of kvs (ascii ''id'') of
             None \<Rightarrow> []
           | Some (JStr s) \<Rightarrow> s
           | Some v \<Rightarrow> py_str P v)
      | _ \<Rightarrow> [])"

definition id_not_null :: "json \<Rightarrow> bool" where
  "id_not_null entry = (entry_get entry (ascii ''id'') (JStr []) \<noteq> Inr JNull)"

definition stored_as :: "platform \<Rightarrow> nat \<Rightarrow> str \<Rightarrow> json \<Rightarrow> TableData \<Rightarrow> bool" where
  "stored_as P pk source_service entry r =
     (td_schema r = pk \<and> td_data r = entry \<and> td_source_service r = source_service
      \<and> td_source_id r = expected_source_id P entry)"

text \<open>
  A \<open>fields_config\<close> is well formed when it is an object with a list under
  \<open>"fields"\<close> whose every entry is an object declaring \<open>"name"\<close> and \<open>"type"\<close>; a name
  collides when a schema, active or not, already has it.
\<close>

definition declares_name_and_type :: "json \<Rightarrow> bool" where
  "declares_name_and_type field =
     (case field of
        JObj kvs \<Rightarrow> map_of kvs (ascii ''name'') \<noteq> None \<and> map_of kvs (ascii ''type'') \<noteq> None
      | _ \<Rightarrow> False)"

definition well_formed_config :: "json option \<Rightarrow> bool" where
  "well_formed_config v =
     (case v of
        Some (JObj kvs) \<Rightarrow>
          (case map_of kvs (ascii ''fields'') of
             Some (JArr field_list) \<Rightarrow> list_all declares_name_and_type field_list
           | _ \<Rightarrow> False)
      | _ \<Rightarrow> False)"

definition collides :: "database \<Rightarrow> str \<Rightarrow> bool" where
  "collides db n = list_ex (\<lambda>t. ts_name t = n) (schemas db)"

text \<open>
  The value a request supplies under a key of its body: none when the key is absent
  or the body is not an object.
\<close>

definition body_field :: "json \<Rightarrow> str \<Rightarrow> json option" where
  "body_field body k = (case body of JObj kvs \<Rightarrow> map_of kvs k | _ \<Rightarrow> None)"

text \<open>
  The rows a batch is stored as, numbered from the sequence, and the condition that
  the storage engine accepts each of them at the moment it is written, after the
  rows before it.
\<close>

fun expected_rows :: "platform \<Rightarrow> nat \<Rightarrow> str \<Rightarrow> nat \<Rightarrow> json list \<Rightarrow> TableData list" where
  "expected_rows P pk source_service n [] = []"
| "expected_rows P pk source_service n (entry # rest) =
     \<lparr>td_id = Suc n, td_schema = pk, td_data = entry, td_source_service = source_service,
      td_source_id = expected_source_id P entry\<rparr>
     # expected_rows P pk source_service (Suc n) rest"

fun accepted :: "platform \<Rightarrow> database \<Rightarrow> TableData list \<Rightarrow> bool" where
  "accepted P db [] = True"
| "accepted P db (r # rs) =
     (db_fault P db r = None
      \<and> accepted P (db\<lparr>rows := rows db @ [r], row_seq := Suc (row_seq db)\<rparr>) rs)"

text \<open>
  A supplied \<open>description\<close> is acceptable when it is a string that, once trimmed, is
  empty or has no prohibited character, and it is stored trimmed (empty when none
  is supplied); a supplied \<open>is_active\<close> is acceptable when it is a JSON boolean, and
  it is stored as given (true when none is supplied).
\<close>

definition description_ok :: "platform \<Rightarrow> json option \<Rightarrow> bool" where
  "description_ok P v =
     (case v of
        None \<Rightarrow> True
      | Some (JStr s) \<Rightarrow> py_strip P s = [] \<or> \<not> prohibited P (py_strip P s)
      | Some _ \<Rightarrow> False)"

definition stored_description :: "platform \<Rightarrow> json option \<Rightarrow> str" where
  "stored_description P v = (case v of Some (JStr s) \<Rightarrow> py_strip P s | _ \<Rightarrow> [])"

definition flag_ok :: "json option \<Rightarrow> bool" where
  "flag_ok v = (case v of None \<Rightarrow> True | Some (JBool b) \<Rightarrow> True | Some _ \<Rightarrow> False)"

definition stored_flag :: "json option \<Rightarrow> bool" where
  "stored_flag v = (case v of Some (JBool b) \<Rightarrow> b | _ \<Rightarrow> True)"









text \<open>
  The outcome of a push, as the specification classifies what the remote did:
  success on 201, rejected with the remote's status and detail on any other
  response, unavailable when the connection fails or times out.
\<close>

datatype outcome = Success | Rejected nat str | Unavailable

fun classify :: "post_result \<Rightarrow> outcome option" where
  "classify (Responded status text) = Some (if status = 201 then Success else Rejected status text)"
| "classify (RequestException e) = Some Unavailable"
| "classify (OtherException e) = None"

text \<open>A list of records can be encoded when the encoder in use accepts all its values.\<close>

definition encodable :: "network \<Rightarrow> (str \<times> pyval) list list \<Rightarrow> bool" where
  "encodable net records = (list_all all_primitive records \<or> encodes_decimal net)"


fun sync_status :: "sync_response \<Rightarrow> nat option" where
  "sync_status (Sync_response b s) = Some s"
| "sync_status (Unhandled e) = None"

section \<open>A platform and a database to run the model on\<close>

text \<open>
  One instance of the platform, for the examples: integers print in decimal, \<open>strip\<close>
  removes spaces, the NUL character is prohibited, 1 and 0 read as booleans, \<open>icontains\<close> folds the case of ASCII
  letters, and the storage engine accepts every row.
\<close>

fun is_infix :: "str \<Rightarrow> str \<Rightarrow> bool" where
  "is_infix p [] = (p = [])"
| "is_infix p (c # s) = (take (length p) (c # s) = p \<or> is_infix p s)"

definition lower :: "str \<Rightarrow> str" where
  "lower s = map (\<lambda>c. if 65 \<le> c \<and> c \<le> 90 then c + 32 else c) s"

definition sample_platform :: platform where
  "sample_platform =
     \<lparr>py_str = (\<lambda>v. case v of
                       JInt n \<Rightarrow> (if n < 0 then 45 # digits (nat (- n)) else digits (nat n))
                     | _ \<Rightarrow> ascii ''?''),
      py_strip = (\<lambda>s. rev (dropWhile (\<lambda>c. c = 32) (rev (dropWhile (\<lambda>c. c = 32) s)))),
      prohibited = (\<lambda>s. 0 \<in> set s),
      to_boolean = (\<lambda>v. if v = JInt 1 then Some True else if v = JInt 0 then Some False else None),
      icontains = (\<lambda>v p. is_infix (lower p) (lower v)),
      db_fault = (\<lambda>db row. None),
      sequences_roll_back = True,
      exc_text = (\<lambda>e. case e of
                         AttributeError \<Rightarrow> ascii ''AttributeError''
                       | NotNullViolation \<Rightarrow> ascii ''NOT NULL constraint failed''
                       | StorageFault n \<Rightarrow> ascii ''storage fault'')\<rparr>"

text \<open>The schema of the spec's scenario, alone in an empty store.\<close>

definition employees :: TableSchema where
  "employees =
     \<lparr>ts_id = 1, ts_name = ascii ''employees'', ts_description = [],
      ts_fields_config =
        JObj [(ascii ''fields'',
               JArr [JObj [(ascii ''name'', JStr (ascii ''full_name'')), (ascii ''type'', JStr (ascii ''string''))],
                     JObj [(ascii ''name'', JStr (ascii ''email'')), (ascii ''type'', JStr (ascii ''string''))]])],
      ts_is_active = True\<rparr>"

definition employees_db :: database where
  "employees_db = \<lparr>schemas = [employees], rows = [], schema_seq = 1, row_seq = 0\<rparr>"

definition populate_request :: "json list \<Rightarrow> request" where
  "populate_request batch =
     \<lparr>query_search = None, query_schema = None, query_source_service = None,
      request_data = JObj [(ascii ''source_service'', JStr (ascii ''user_service'')),
                           (ascii ''data'', JArr batch)]\<rparr>"

definition entry_1 :: json where
  "entry_1 = JObj [(ascii ''id'', JStr (ascii ''1'')), (ascii ''full_name'', JStr (ascii ''A B'')),
                   (ascii ''email'', JStr (ascii ''a@b.com''))]"

definition entry_null_id :: json where
  "entry_null_id = JObj [(ascii ''id'', JNull), (ascii ''full_name'', JStr (ascii ''C D''))]"

definition row_1 :: TableData where
  "row_1 = \<lparr>td_id = 1, td_schema = 1, td_data = entry_1,
            td_source_service = ascii ''user_service'', td_source_id = ascii ''1''\<rparr>"

text \<open>
  More stores and requests: the schema soft-deleted with one record left, the active
  schema with one record, two schemas with a record each; a request without
  parameters; the creation of a schema \<open>products\<close>; a name of 101 letters.
\<close>

definition retired_db :: database where
  "retired_db = \<lparr>schemas = [employees\<lparr>ts_is_active := False\<rparr>], rows = [row_1],
                  schema_seq = 1, row_seq = 1\<rparr>"

definition one_row_db :: database where
  "one_row_db = \<lparr>schemas = [employees], rows = [row_1], schema_seq = 1, row_seq = 1\<rparr>"

definition products_config :: json where
  "products_config =
     JObj [(ascii ''fields'',
            JArr [JObj [(ascii ''name'', JStr (ascii ''sku'')), (ascii ''type'', JStr (ascii ''string''))]])]"

definition products :: TableSchema where
  "products = \<lparr>ts_id = 2, ts_name = ascii ''products'', ts_description = [],
               ts_fields_config = products_config, ts_is_active = True\<rparr>"

definition row_2 :: TableData where
  "row_2 = \<lparr>td_id = 2, td_schema = 2, td_data = JObj [(ascii ''sku'', JStr (ascii ''X-1''))],
            td_source_service = ascii ''product_service'', td_source_id = []\<rparr>"

definition two_schema_db :: database where
  "two_schema_db = \<lparr>schemas = [employees, products], rows = [row_1, row_2],
                     schema_seq = 2, row_seq = 2\<rparr>"

definition plain_request :: request where
  "plain_request = \<lparr>query_search = None, query_schema = None, query_source_service = None,
                     request_data = JNull\<rparr>"

definition create_request :: "str \<Rightarrow> request" where
  "create_request n =
     \<lparr>query_search = None, query_schema = None, query_source_service = None,
      request_data = JObj [(ascii ''name'', JStr n), (ascii ''fields_config'', products_config)]\<rparr>"

definition long_name :: str where
  "long_name = replicate 101 97"

text \<open>
  A user, a product (and the same with no cost, whose margin is the integer 0), and
  two networks: one whose remote declines, one without a remote.
\<close>

definition sample_user :: User where
  "sample_user =
     \<lparr>u_id = 1, u_username = ascii ''ab'', u_email = ascii ''a@b.com'', u_first_name = ascii ''A'',
      u_last_name = ascii ''B'', u_department = ascii ''IT'', u_position = ascii ''MANAGER'',
      u_salary = Some 1500, u_hire_date = \<lparr>year = 2024, month = 3, day = 5\<rparr>, u_is_active = True\<rparr>"

definition sample_product :: Product where
  "sample_product =
     \<lparr>p_id = 7, p_name = ascii ''Phone'', p_sku = ascii ''X-1'', p_barcode = None, p_description = [],
      p_category = Category (ascii ''Phones'') (Some (Category (ascii ''Electronics'') None)),
      p_supplier = None, p_cost_price = 10, p_selling_price = 15, p_discount_price = None,
      p_stock_quantity = 3, p_min_stock_level = 5, p_max_stock_level = None, p_weight = None,
      p_dimensions = [], p_status = ascii ''ACTIVE'', p_is_featured = False,
      p_created_at = \<lparr>dt_date = \<lparr>year = 2024, month = 3, day = 5\<rparr>, hour = 10, minute = 30,
                      second = 0, microsecond = 0, utcoffset = Some 0\<rparr>\<rparr>"

definition free_product :: Product where
  "free_product = sample_product\<lparr>p_cost_price := 0\<rparr>"

definition core_url :: str where
  "core_url = ascii ''http://core:8000''"

definition declining_network :: network where
  "declining_network = \<lparr>remote = (\<lambda>n. Responded 400 (ascii ''bad request'')), sent = [],
                          encodes_decimal = False\<rparr>"

definition unreachable_network :: network where
  "unreachable_network = \<lparr>remote = (\<lambda>n. RequestException (ascii ''timed out'')), sent = [],
                            encodes_decimal = False\<rparr>"

text \<open>
  A platform whose storage engine enforces the length of \<open>source_id\<close>; the creation
  of \<open>products\<close> with a description and the flag cleared, and the schema it stores.
\<close>

definition strict_platform :: platform where
  "strict_platform =
     sample_platform\<lparr>db_fault := (\<lambda>db row. if length (td_source_id row) > 100 then Some 1 else None)\<rparr>"

definition described_request :: request where
  "described_request =
     \<lparr>query_search = None, query_schema = None, query_source_service = None,
      request_data = JObj [(ascii ''name'', JStr (ascii ''products'')),
                           (ascii ''description'', JStr (ascii '' goods '')),
                           (ascii ''fields_config'', products_config),
                           (ascii ''is_active'', JBool False)]\<rparr>"

definition goods :: TableSchema where
  "goods = \<lparr>ts_id = 2, ts_name = ascii ''products'', ts_description = ascii ''goods'',
            ts_fields_config = products_config, ts_is_active = False\<rparr>"

section \<open>Lemmas on the views\<close>

lemma find_SomeD: "find Q xs = Some x \<Longrightarrow> Q x \<and> x \<in> set xs"
  by (induction xs) (auto split: if_splits)

lemma get_queryset_set:
  "set (get_queryset P db req) = {t \<in> set (schemas db). visible P req t}"
  by (auto simp: get_queryset_def visible_def Let_def split: option.splits)

lemma get_object_Some:
  "get_object P db req pk = Some schema \<Longrightarrow>
   ts_id schema = pk \<and> visible P req schema \<and> schema \<in> set (schemas db)"
  using find_SomeD [of "\<lambda>t. ts_id t = pk" "get_queryset P db req" schema]
  by (simp add: get_object_def get_queryset_set)

lemma get_object_None:
  "get_object P db req pk = None \<longleftrightarrow> \<not> list_ex (\<lambda>t. ts_id t = pk \<and> visible P req t) (schemas db)"
  by (auto simp: get_object_def find_None_iff get_queryset_set list_ex_iff)

lemma get_object_rows: "get_object P (db\<lparr>rows := rs\<rparr>) req pk = get_object P db req pk"
  by (simp add: get_object_def get_queryset_def)

lemma child_errors_Nil: "child_errors i xs = [] \<longleftrightarrow> list_all is_dict xs"
proof (induction xs arbitrary: i)
  case Nil
  then show ?case by simp
next
  case (Cons x xs)
  then show ?case by (cases x) simp_all
qed

lemma field_data_malformed:
  "data_malformed v \<Longrightarrow> \<exists>es. field_data v = Inl es"
  by (auto simp: data_malformed_def field_data_def ListField_def validate_data_def child_errors_Nil
      list_ex_iff list_all_iff split: option.splits json.splits)

lemma field_data_Inr:
  "field_data v = Inr items \<longleftrightarrow> v = Some (JArr items) \<and> items \<noteq> [] \<and> list_all is_dict items"
  by (auto simp: field_data_def ListField_def validate_data_def child_errors_Nil
      list_ex_iff list_all_iff split: option.splits json.splits sum.splits if_splits)

lemma source_service_malformed_error:
  "source_service_malformed P v \<Longrightarrow> \<exists>es. CharField P no_validators (Some 50) False v = Inl es"
  by (auto simp: source_service_malformed_def CharField_def to_internal_value_def run_validators_def
      Let_def split: option.splits json.splits)

lemma serializer_errors:
  assumes "CharField P no_validators (Some 50) False (map_of kvs (ascii ''source_service'')) = ss"
    and "field_data (map_of kvs (ascii ''data'')) = d"
    and "(\<exists>es. ss = Inl es) \<or> (\<exists>es. d = Inl es)"
  shows "PopulateTableSerializer P (JObj kvs)
           = Inl (errors_of (ascii ''source_service'') ss @ errors_of (ascii ''data'') d)"
  using assms by (auto simp: PopulateTableSerializer_def Let_def split: sum.splits)

lemma create_entries_append:
  "create_entries P schema src (xs @ ys) db acc =
     (case create_entries P schema src xs db acc of
        Inl f \<Rightarrow> Inl f
      | Inr (c, db') \<Rightarrow> create_entries P schema src ys db' c)"
  by (induction xs arbitrary: db acc) (auto split: sum.splits prod.splits)

lemma sample_get_object:
  "get_object sample_platform employees_db (populate_request batch) 1 = Some employees"
  by (simp add: get_object_def get_queryset_def employees_db_def employees_def populate_request_def)

lemma sample_source_service:
  "CharField sample_platform no_validators (Some 50) False (Some (JStr (ascii ''user_service'')))
     = Inr (ascii ''user_service'')"
  by (simp add: CharField_def to_internal_value_def run_validators_def no_validators_def
      sample_platform_def ascii_def)

lemma sample_serializer:
  "field_data (Some (JArr batch)) = Inr batch \<Longrightarrow>
   PopulateTableSerializer sample_platform (request_data (populate_request batch))
     = Inr (ascii ''user_service'', batch)"
  using sample_source_service
  by (simp add: PopulateTableSerializer_def populate_request_def ascii_def)

lemma entry_get_dict: "is_dict entry \<Longrightarrow> \<exists>v. entry_get entry k d = Inr v"
  by (cases entry) (auto simp: entry_get_def split: option.splits)

lemma create_entries_rows:
  "create_entries P schema src xs db acc = Inr (c, db') \<Longrightarrow>
   \<exists>new. c = acc @ new \<and> rows db' = rows db @ new \<and> schemas db' = schemas db"
proof (induction xs arbitrary: db acc)
  case Nil
  then show ?case by simp
next
  case (Cons x xs)
  then obtain sid r db1 where
    1: "TableData_create P db (ts_id schema) x src sid = Inr (r, db1)"
    and 2: "create_entries P schema src xs db1 (acc @ [r]) = Inr (c, db')"
    by (auto split: sum.splits prod.splits)
  from 1 have db1: "rows db1 = rows db @ [r]" "schemas db1 = schemas db"
    by (auto simp: TableData_create_def Let_def split: option.splits)
  from Cons.IH [OF 2] db1 show ?case by auto
qed

lemma populate_appends:
  "\<exists>created. rows (snd (populate P db req pk)) = rows db @ created"
proof (cases "create_entries P (the (get_object P db req pk))
                (fst (projr (PopulateTableSerializer P (request_data req))))
                (snd (projr (PopulateTableSerializer P (request_data req)))) db []")
  case (Inl f)
  then show ?thesis
    by (auto simp: populate_def rollback_def split: option.splits sum.splits prod.splits)
next
  case (Inr ok)
  obtain c db' where ok: "ok = (c, db')" by (cases ok)
  from create_entries_rows [OF Inr [unfolded ok]] obtain new where "rows db' = rows db @ new"
    by auto
  then show ?thesis
    using Inr ok
    by (auto simp: populate_def rollback_def split: option.splits sum.splits prod.splits)
qed

lemma populate_all_or_nothing:
  "status_code (fst (populate P db req pk)) \<noteq> 201 \<Longrightarrow>
   rows (snd (populate P db req pk)) = rows db \<and> schemas (snd (populate P db req pk)) = schemas db"
  by (auto simp: populate_def rollback_def split: option.splits sum.splits prod.splits)

lemma check_fields_None: "check_fields fs = None \<longleftrightarrow> list_all declares_name_and_type fs"
proof (induction fs)
  case Nil
  then show ?case by simp
next
  case (Cons f fs)
  then show ?case
    by (cases f) (auto simp: declares_name_and_type_def required_keys_def split: option.splits)
qed

lemma field_fields_config_Inr:
  "field_fields_config v = Inr c \<longleftrightarrow> v = Some c \<and> well_formed_config v"
  by (auto simp: field_fields_config_def validate_fields_config_def well_formed_config_def
      check_fields_None [symmetric] split: option.splits json.splits sum.splits)

lemma name_field:
  assumes "py_strip P n \<noteq> []" "length (py_strip P n) \<le> 100" "\<not> prohibited P (py_strip P n)"
  shows "CharField P (UniqueValidator db) (Some 100) False (Some (JStr n))
           = (if collides db (py_strip P n) then Inl [NotUnique] else Inr (py_strip P n))"
  using assms
  by (simp add: CharField_def to_internal_value_def run_validators_def UniqueValidator_def
      collides_def Let_def)

lemma serializer_schema:
  assumes "map_of kvs (ascii ''name'') = Some (JStr n)"
    and "py_strip P n \<noteq> []" "length (py_strip P n) \<le> 100" "\<not> prohibited P (py_strip P n)"
    and "field_description P (map_of kvs (ascii ''description'')) = Inr d"
    and "field_is_active P (map_of kvs (ascii ''is_active'')) = Inr a"
  shows "TableSchemaSerializer P db (JObj kvs)
           = (if well_formed_config (map_of kvs (ascii ''fields_config'')) \<and> \<not> collides db (py_strip P n)
              then Inr (py_strip P n, d, the (map_of kvs (ascii ''fields_config'')), a)
              else Inl (errors_of (ascii ''name'')
                          (CharField P (UniqueValidator db) (Some 100) False (Some (JStr n)))
                        @ errors_of (ascii ''fields_config'')
                          (field_fields_config (map_of kvs (ascii ''fields_config'')))))"
proof -
  have n: "CharField P (UniqueValidator db) (Some 100) False (map_of kvs (ascii ''name''))
             = (if collides db (py_strip P n) then Inl [NotUnique] else Inr (py_strip P n))"
    using name_field [OF assms(2-4)] assms(1) by simp
  show ?thesis
  proof (cases "field_fields_config (map_of kvs (ascii ''fields_config''))")
    case (Inl es)
    then have "\<not> well_formed_config (map_of kvs (ascii ''fields_config''))"
      using field_fields_config_Inr [of "map_of kvs (ascii ''fields_config'')"]
      by (cases "map_of kvs (ascii ''fields_config'')") (auto simp: well_formed_config_def)
    then show ?thesis
      using n Inl assms(1,5,6)
      by (simp add: TableSchemaSerializer_def Let_def errors_of_def)
  next
    case (Inr c)
    then have "map_of kvs (ascii ''fields_config'') = Some c"
      and "well_formed_config (map_of kvs (ascii ''fields_config''))"
      using field_fields_config_Inr by blast+
    then show ?thesis
      using n Inr assms(1,5,6)
      by (simp add: TableSchemaSerializer_def Let_def errors_of_def)
  qed
qed

lemma dropWhile_no_space: "32 \<notin> set s \<Longrightarrow> dropWhile (\<lambda>c. c = (32::nat)) s = s"
  by (cases s) auto

lemma sample_strip: "32 \<notin> set s \<Longrightarrow> py_strip sample_platform s = s"
  by (simp add: sample_platform_def dropWhile_no_space)

lemma employees_not_long: "ascii ''employees'' \<noteq> long_name"
proof
  assume "ascii ''employees'' = long_name"
  then have "length (ascii ''employees'') = length long_name"
    by simp
  then show False
    by (simp add: ascii_def long_name_def)
qed

lemma products_config_ok: "well_formed_config (Some products_config)"
  by (simp add: well_formed_config_def products_config_def declares_name_and_type_def ascii_def)

text \<open>
  The scenario of the specification: the schema \<open>employees\<close>, one element with
  \<open>"id": "1"\<close> from \<open>user_service\<close>; the answer is 201 with count 1 and one row is
  stored, with \<open>source_id\<close> \<open>"1"\<close>.
\<close>

lemma scenario:
  "populate sample_platform employees_db (populate_request [entry_1]) 1
     = (Response (Populated (msg_created_prefix @ ascii ''1'' @ msg_records) 1
                    [(row_1, ascii ''employees'')]) 201,
        employees_db\<lparr>rows := [row_1], row_seq := 1\<rparr>)"
proof -
  have "field_data (Some (JArr [entry_1])) = Inr [entry_1]"
    by (simp add: field_data_Inr entry_1_def)
  then have ser: "PopulateTableSerializer sample_platform (request_data (populate_request [entry_1]))
                 = Inr (ascii ''user_service'', [entry_1])"
    by (rule sample_serializer)
  have c: "create_entries sample_platform employees (ascii ''user_service'') [entry_1] employees_db []
              = Inr ([row_1], employees_db\<lparr>rows := [row_1], row_seq := 1\<rparr>)"
    by (simp add: entry_get_def entry_1_def TableData_create_def to_python_def sample_platform_def
        employees_db_def employees_def row_1_def ascii_def Let_def)
  have d: "digits 1 = ascii ''1''"
    by (simp add: digits.simps ascii_def)
  show ?thesis
    using sample_get_object [of "[entry_1]"] ser c d
    by (simp add: populate_def employees_def)
qed

section \<open>The claims\<close>

subsection \<open>C1: the batch is atomic\<close>

text \<open>
  C1. On an existing schema and a valid request, when the records \<open>persisted\<close> of the
  batch have been written and persisting the next one, \<open>entry\<close>, fails, populate
  answers 500 with the text of the failure and leaves the record store (and the
  schemas) as they were before the call: the records already written are gone.
\<close>

theorem populate_atomic:
  assumes "get_object P db req pk = Some schema"
    and "PopulateTableSerializer P (request_data req) = Inr (source_service, data_list)"
    and "data_list = persisted @ entry # rest"
    and "create_entries P schema source_service persisted db [] = Inr (created, db1)"
    and "entry_get entry (ascii ''id'') (JStr []) = Inr source_id"
    and "TableData_create P db1 (ts_id schema) entry source_service source_id = Inl (e, failed)"
  shows "fst (populate P db req pk) = Response (Error (msg_create_error @ exc_text P e)) 500
       \<and> rows (snd (populate P db req pk)) = rows db
       \<and> schemas (snd (populate P db req pk)) = schemas db"
proof -
  have "create_entries P schema source_service data_list db [] = Inl (e, failed)"
    using assms(3-6) by (simp add: create_entries_append)
  then show ?thesis
    using assms(1,2) by (simp add: populate_def rollback_def)
qed

theorem populate_atomic_witness:
  "create_entries sample_platform employees (ascii ''user_service'') [entry_1] employees_db []
     = Inr ([row_1], employees_db\<lparr>rows := [row_1], row_seq := 1\<rparr>)
   \<and> TableData_create sample_platform (employees_db\<lparr>rows := [row_1], row_seq := 1\<rparr>) 1
        entry_null_id (ascii ''user_service'') JNull
     = Inl (NotNullViolation, employees_db\<lparr>rows := [row_1], row_seq := 2\<rparr>)
   \<and> status_code (fst (populate sample_platform employees_db
                          (populate_request [entry_1, entry_null_id]) 1)) = 500
   \<and> rows (snd (populate sample_platform employees_db
                    (populate_request [entry_1, entry_null_id]) 1)) = []"
proof -
  let ?db1 = "employees_db\<lparr>rows := [row_1], row_seq := 1\<rparr>"
  let ?failed = "employees_db\<lparr>rows := [row_1], row_seq := 2\<rparr>"
  have h1: "get_object sample_platform employees_db (populate_request [entry_1, entry_null_id]) 1
              = Some employees"
    by (rule sample_get_object)
  have "field_data (Some (JArr [entry_1, entry_null_id])) = Inr [entry_1, entry_null_id]"
    by (simp add: field_data_def ListField_def validate_data_def entry_1_def entry_null_id_def)
  then have h2: "PopulateTableSerializer sample_platform
                   (request_data (populate_request [entry_1, entry_null_id]))
                 = Inr (ascii ''user_service'', [entry_1, entry_null_id])"
    by (rule sample_serializer)
  have h3: "[entry_1, entry_null_id] = [entry_1] @ entry_null_id # []"
    by simp
  have h4: "create_entries sample_platform employees (ascii ''user_service'') [entry_1] employees_db []
              = Inr ([row_1], ?db1)"
    by (simp add: entry_get_def entry_1_def TableData_create_def to_python_def sample_platform_def
        employees_db_def employees_def row_1_def ascii_def Let_def)
  have h5: "entry_get entry_null_id (ascii ''id'') (JStr []) = Inr JNull"
    by (simp add: entry_get_def entry_null_id_def)
  have h6: "TableData_create sample_platform ?db1 (ts_id employees) entry_null_id
              (ascii ''user_service'') JNull = Inl (NotNullViolation, ?failed)"
    by (simp add: TableData_create_def to_python_def employees_db_def)
  have "ts_id employees = 1"
    by (simp add: employees_def)
  then show ?thesis
    using populate_atomic [OF h1 h2 h3 h4 h5 h6] h4 h6
    by (simp add: employees_db_def)
qed

subsection \<open>C2: malformed requests\<close>

lemma populate_invalid_object:
  assumes "get_object P db req pk = Some schema"
    and "request_data req = JObj kvs"
    and "data_malformed (map_of kvs (ascii ''data''))
         \<or> source_service_malformed P (map_of kvs (ascii ''source_service''))"
  shows "\<exists>errors. populate P db req pk = (Response (Field_errors errors) 400, db)
           \<and> (data_malformed (map_of kvs (ascii ''data''))
                \<longrightarrow> map_of errors (ascii ''data'') \<noteq> None)
           \<and> (source_service_malformed P (map_of kvs (ascii ''source_service''))
                \<longrightarrow> map_of errors (ascii ''source_service'') \<noteq> None)"
proof -
  let ?ss = "CharField P no_validators (Some 50) False (map_of kvs (ascii ''source_service''))"
  let ?d = "field_data (map_of kvs (ascii ''data''))"
  let ?errors = "errors_of (ascii ''source_service'') ?ss @ errors_of (ascii ''data'') ?d"
  have bad: "(\<exists>es. ?ss = Inl es) \<or> (\<exists>es. ?d = Inl es)"
    using assms(3) field_data_malformed source_service_malformed_error by blast
  have ser: "PopulateTableSerializer P (JObj kvs) = Inl ?errors"
    using serializer_errors [OF refl refl bad] .
  have pop: "populate P db req pk = (Response (Field_errors ?errors) 400, db)"
    using assms(1,2) ser by (simp add: populate_def)
  have d: "map_of ?errors (ascii ''data'') \<noteq> None"
    if "data_malformed (map_of kvs (ascii ''data''))"
    using field_data_malformed [OF that]
    by (auto simp: errors_of_def ascii_def split: sum.splits)
  have s: "map_of ?errors (ascii ''source_service'') \<noteq> None"
    if "source_service_malformed P (map_of kvs (ascii ''source_service''))"
    using source_service_malformed_error [OF that]
    by (auto simp: errors_of_def split: sum.splits)
  show ?thesis
    using pop d s by blast
qed

lemma populate_invalid_other:
  assumes "get_object P db req pk = Some schema"
    and "\<not> is_dict (request_data req)"
  shows "\<exists>errors. populate P db req pk = (Response (Field_errors errors) 400, db)
           \<and> map_of errors (ascii ''non_field_errors'') \<noteq> None"
  using assms
  by (cases "request_data req") (simp_all add: populate_def PopulateTableSerializer_def)

text \<open>
  C2, as amended. On a schema that \<open>get_object\<close> resolves, a populate request in
  which \<open>data\<close> is absent, not a list, empty or has an element that is not an object,
  or in which \<open>source_service\<close> is missing or longer than 50 characters once trimmed,
  is answered 400 with errors, and the database is returned as it was: nothing is
  written and \<open>transaction.atomic()\<close> is never entered. When the body is an object
  the errors name every offending field; when it is not (both fields are then
  absent) the error is reported under \<open>non_field_errors\<close>.
\<close>

theorem populate_invalid:
  assumes "get_object P db req pk = Some schema"
    and "data_malformed (body_field (request_data req) (ascii ''data''))
         \<or> source_service_malformed P (body_field (request_data req) (ascii ''source_service''))"
  shows "\<exists>errors. populate P db req pk = (Response (Field_errors errors) 400, db)
           \<and> (is_dict (request_data req)
                \<longrightarrow> (data_malformed (body_field (request_data req) (ascii ''data''))
                       \<longrightarrow> map_of errors (ascii ''data'') \<noteq> None)
                   \<and> (source_service_malformed P (body_field (request_data req) (ascii ''source_service''))
                       \<longrightarrow> map_of errors (ascii ''source_service'') \<noteq> None))
           \<and> (\<not> is_dict (request_data req)
                \<longrightarrow> map_of errors (ascii ''non_field_errors'') \<noteq> None)"
proof (cases "is_dict (request_data req)")
  case True
  then obtain kvs where kvs: "request_data req = JObj kvs"
    by (cases "request_data req") simp_all
  show ?thesis
    using populate_invalid_object [OF assms(1) kvs] assms(2) True
    by (simp add: kvs body_field_def)
next
  case False
  then show ?thesis
    using populate_invalid_other [OF assms(1) False] by simp
qed

text \<open>
  At the empty batch and at a null body, on the schema \<open>employees\<close>.
\<close>

theorem populate_invalid_witness:
  "get_object sample_platform employees_db (populate_request []) 1 = Some employees
   \<and> data_malformed (body_field (request_data (populate_request [])) (ascii ''data''))
   \<and> (\<exists>errors. populate sample_platform employees_db (populate_request []) 1
                   = (Response (Field_errors errors) 400, employees_db)
          \<and> map_of errors (ascii ''data'') \<noteq> None)
   \<and> get_object sample_platform employees_db plain_request 1 = Some employees
   \<and> data_malformed (body_field (request_data plain_request) (ascii ''data''))
   \<and> (\<exists>errors. populate sample_platform employees_db plain_request 1
                   = (Response (Field_errors errors) 400, employees_db)
          \<and> map_of errors (ascii ''non_field_errors'') \<noteq> None)"
proof -
  have h1: "get_object sample_platform employees_db (populate_request []) 1 = Some employees"
    by (rule sample_get_object)
  have d1: "data_malformed (body_field (request_data (populate_request [])) (ascii ''data''))"
    by (simp add: data_malformed_def body_field_def populate_request_def ascii_def)
  have o1: "is_dict (request_data (populate_request []))"
    by (simp add: populate_request_def)
  have h2: "get_object sample_platform employees_db plain_request 1 = Some employees"
    by (simp add: get_object_def get_queryset_def employees_db_def employees_def plain_request_def)
  have d2: "data_malformed (body_field (request_data plain_request) (ascii ''data''))"
    by (simp add: data_malformed_def body_field_def plain_request_def)
  have o2: "\<not> is_dict (request_data plain_request)"
    by (simp add: plain_request_def)
  have a: "\<exists>errors. populate sample_platform employees_db (populate_request []) 1
                   = (Response (Field_errors errors) 400, employees_db)
          \<and> map_of errors (ascii ''data'') \<noteq> None"
    using populate_invalid [OF h1 disjI1 [OF d1]] d1 o1 by blast
  have b: "\<exists>errors. populate sample_platform employees_db plain_request 1
                   = (Response (Field_errors errors) 400, employees_db)
          \<and> map_of errors (ascii ''non_field_errors'') \<noteq> None"
    using populate_invalid [OF h2 disjI1 [OF d2]] o2 by blast
  show ?thesis
    using h1 d1 a h2 d2 b by (intro conjI)
qed

text \<open>
  C2 as stated fails where the schema does not resolve: \<open>get_object\<close> runs before the
  serializer, and the empty batch sent to the unknown schema 2 is answered 404, not
  400.
\<close>

theorem populate_invalid_counterexample:
  "data_malformed (Some (JArr []))
   \<and> populate sample_platform employees_db (populate_request []) 2
       = (Response Not_found 404, employees_db)"
  by (simp add: data_malformed_def populate_def get_object_def get_queryset_def employees_db_def
      employees_def populate_request_def)

subsection \<open>C3: what a successful populate stores\<close>

lemma TableData_create_expected:
  assumes "is_dict entry" "id_not_null entry"
    and "entry_get entry (ascii ''id'') (JStr []) = Inr sid"
    and "db_fault P db (\<lparr>td_id = Suc (row_seq db), td_schema = pk, td_data = entry,
             td_source_service = src, td_source_id = expected_source_id P entry\<rparr>) = None"
  shows "TableData_create P db pk entry src sid
           = Inr (\<lparr>td_id = Suc (row_seq db), td_schema = pk, td_data = entry,
                   td_source_service = src, td_source_id = expected_source_id P entry\<rparr>,
                  db\<lparr>rows := rows db @ [\<lparr>td_id = Suc (row_seq db), td_schema = pk, td_data = entry,
                          td_source_service = src, td_source_id = expected_source_id P entry\<rparr>],
                     row_seq := Suc (row_seq db)\<rparr>)"
  using assms
  by (cases entry; cases sid)
     (auto simp: TableData_create_def to_python_def expected_source_id_def id_not_null_def
        entry_get_def Let_def split: option.splits)

lemma create_entries_accepted:
  "list_all is_dict xs \<Longrightarrow> list_all id_not_null xs \<Longrightarrow>
   accepted P db (expected_rows P (ts_id schema) src (row_seq db) xs) \<Longrightarrow>
   \<exists>db'. create_entries P schema src xs db acc
            = Inr (acc @ expected_rows P (ts_id schema) src (row_seq db) xs, db')
        \<and> rows db' = rows db @ expected_rows P (ts_id schema) src (row_seq db) xs"
proof (induction xs arbitrary: db acc)
  case Nil
  then show ?case by simp
next
  case (Cons x xs)
  let ?r = "\<lparr>td_id = Suc (row_seq db), td_schema = ts_id schema, td_data = x,
             td_source_service = src, td_source_id = expected_source_id P x\<rparr>"
  let ?db1 = "db\<lparr>rows := rows db @ [?r], row_seq := Suc (row_seq db)\<rparr>"
  obtain sid where sid: "entry_get x (ascii ''id'') (JStr []) = Inr sid"
    using Cons.prems(1) entry_get_dict by fastforce
  have fault: "db_fault P db ?r = None"
    and rest: "accepted P ?db1 (expected_rows P (ts_id schema) src (Suc (row_seq db)) xs)"
    using Cons.prems(3) by simp_all
  have cr: "TableData_create P db (ts_id schema) x src sid = Inr (?r, ?db1)"
    using TableData_create_expected [OF _ _ sid fault] Cons.prems(1,2) by simp
  have "accepted P ?db1 (expected_rows P (ts_id schema) src (row_seq ?db1) xs)"
    using rest by simp
  then obtain db' where
    ih: "create_entries P schema src xs ?db1 (acc @ [?r])
           = Inr ((acc @ [?r]) @ expected_rows P (ts_id schema) src (row_seq ?db1) xs, db')"
        "rows db' = rows ?db1 @ expected_rows P (ts_id schema) src (row_seq ?db1) xs"
    using Cons.IH [of ?db1 "acc @ [?r]"] Cons.prems(1,2) by auto
  have "create_entries P schema src (x # xs) db acc
          = Inr (acc @ expected_rows P (ts_id schema) src (row_seq db) (x # xs), db')"
    using sid cr ih(1) by simp
  moreover have "rows db' = rows db @ expected_rows P (ts_id schema) src (row_seq db) (x # xs)"
    using ih(2) by simp
  ultimately show ?case by blast
qed

lemma expected_rows_stored:
  "list_all2 (stored_as P pk src) xs (expected_rows P pk src n xs)"
  by (induction xs arbitrary: n) (simp_all add: stored_as_def)

lemma strict_fields:
  "py_str strict_platform = py_str sample_platform"
  "py_strip strict_platform = py_strip sample_platform"
  "prohibited strict_platform = prohibited sample_platform"
  "icontains strict_platform = icontains sample_platform"
  "db_fault strict_platform db r = (if length (td_source_id r) > 100 then Some 1 else None)"
  by (simp_all add: strict_platform_def)

text \<open>
  C3, as amended. On a schema that \<open>get_object\<close> resolves, with a valid
  \<open>source_service\<close>, a non-empty list of \<open>N\<close> objects none of which has a null \<open>"id"\<close>,
  and a storage engine that accepts each row of the batch when it is written:
  populate answers 201 with count \<open>N\<close> and the \<open>N\<close> created rows, which are appended
  to the table in the order of the batch; each references the schema, carries the
  producer label and the element itself as payload, and its \<open>source_id\<close> is the
  element's \<open>"id"\<close> when present (its \<open>str\<close> when it is not a string) and empty
  otherwise.
\<close>

theorem populate_creates:
  assumes "get_object P db req pk = Some schema"
    and "CharField P no_validators (Some 50) False
           (body_field (request_data req) (ascii ''source_service'')) = Inr source_service"
    and "body_field (request_data req) (ascii ''data'') = Some (JArr batch)"
    and "batch \<noteq> []" and "list_all is_dict batch" and "list_all id_not_null batch"
    and "accepted P db (expected_rows P pk source_service (row_seq db) batch)"
  shows "\<exists>created.
           fst (populate P db req pk)
             = Response (Populated (msg_created_prefix @ digits (length batch) @ msg_records)
                           (length batch) (map (\<lambda>r. (r, ts_name schema)) created)) 201
         \<and> rows (snd (populate P db req pk)) = rows db @ created
         \<and> length created = length batch
         \<and> list_all2 (stored_as P pk source_service) batch created
         \<and> created = expected_rows P pk source_service (row_seq db) batch"
proof -
  let ?created = "expected_rows P pk source_service (row_seq db) batch"
  have pk: "ts_id schema = pk"
    using get_object_Some [OF assms(1)] by simp
  obtain kvs where kvs: "request_data req = JObj kvs"
    using assms(3) by (cases "request_data req") (simp_all add: body_field_def)
  have "field_data (map_of kvs (ascii ''data'')) = Inr batch"
    using assms(3-5) kvs by (simp add: field_data_Inr body_field_def)
  then have ser: "PopulateTableSerializer P (request_data req) = Inr (source_service, batch)"
    using assms(2) kvs by (simp add: PopulateTableSerializer_def body_field_def)
  obtain db' where
    c: "create_entries P schema source_service batch db [] = Inr ([] @ ?created, db')"
      "rows db' = rows db @ ?created"
    using create_entries_accepted [OF assms(5) assms(6), of P db schema source_service "[]"]
      assms(7) pk by auto
  have st: "list_all2 (stored_as P pk source_service) batch ?created"
    by (rule expected_rows_stored)
  then have len: "length ?created = length batch"
    by (simp add: list_all2_lengthD)
  have "populate P db req pk
          = (Response (Populated (msg_created_prefix @ digits (length batch) @ msg_records)
                          (length batch) (map (\<lambda>r. (r, ts_name schema)) ?created)) 201, db')"
    using assms(1) ser c(1) len by (simp add: populate_def)
  then show ?thesis
    using c(2) st len by auto
qed

text \<open>
  At the scenario of the specification, on a storage engine that rejects a
  \<open>source_id\<close> of more than 100 characters.
\<close>

theorem populate_creates_witness:
  "db_fault strict_platform employees_db (row_1\<lparr>td_source_id := long_name\<rparr>) = Some 1
   \<and> expected_rows strict_platform 1 (ascii ''user_service'') (row_seq employees_db) [entry_1] = [row_1]
   \<and> accepted strict_platform employees_db [row_1]
   \<and> fst (populate strict_platform employees_db (populate_request [entry_1]) 1)
       = Response (Populated (msg_created_prefix @ digits 1 @ msg_records) 1
                     [(row_1, ts_name employees)]) 201
   \<and> rows (snd (populate strict_platform employees_db (populate_request [entry_1]) 1)) = [row_1]"
proof -
  have h1: "get_object strict_platform employees_db (populate_request [entry_1]) 1 = Some employees"
    by (simp add: get_object_def get_queryset_def employees_db_def employees_def populate_request_def)
  have h2: "CharField strict_platform no_validators (Some 50) False
              (body_field (request_data (populate_request [entry_1])) (ascii ''source_service''))
            = Inr (ascii ''user_service'')"
    by (simp add: body_field_def populate_request_def CharField_def to_internal_value_def
        run_validators_def no_validators_def strict_platform_def sample_platform_def ascii_def)
  have h3: "body_field (request_data (populate_request [entry_1])) (ascii ''data'')
              = Some (JArr [entry_1])"
    by (simp add: body_field_def populate_request_def ascii_def)
  have h4: "[entry_1] \<noteq> []"
    by simp
  have h5: "list_all is_dict [entry_1]"
    by (simp add: entry_1_def)
  have h6: "list_all id_not_null [entry_1]"
    by (simp add: id_not_null_def entry_get_def entry_1_def)
  have e: "expected_rows strict_platform 1 (ascii ''user_service'') (row_seq employees_db) [entry_1]
             = [row_1]"
    by (simp add: expected_source_id_def entry_1_def row_1_def employees_db_def ascii_def)
  have f: "db_fault strict_platform employees_db (row_1\<lparr>td_source_id := long_name\<rparr>) = Some 1"
    by (simp add: strict_fields long_name_def)
  have acc: "accepted strict_platform employees_db [row_1]"
    by (simp add: strict_fields row_1_def ascii_def)
  then have h7: "accepted strict_platform employees_db
                   (expected_rows strict_platform 1 (ascii ''user_service'') (row_seq employees_db) [entry_1])"
    by (simp only: e)
  have r: "rows employees_db = []"
    by (simp add: employees_db_def)
  show ?thesis
    using populate_creates [OF h1 h2 h3 h4 h5 h6 h7] e f acc r by auto
qed

text \<open>
  C3 as stated fails on a schema that exists but was soft-deleted: populate answers
  404 and stores nothing.
\<close>

theorem populate_creates_counterexample:
  "list_ex (\<lambda>t. ts_id t = 1) (schemas retired_db)
   \<and> list_all is_dict [entry_1]
   \<and> populate sample_platform retired_db (populate_request [entry_1]) 1
       = (Response Not_found 404, retired_db)"
  by (simp add: populate_def get_object_def get_queryset_def retired_db_def employees_def
      populate_request_def entry_1_def)

subsection \<open>C4: when populate answers 404\<close>

text \<open>
  C4, as amended. Populate answers 404 exactly when no schema of the given id is
  visible to the request, that is active (and matching the \<open>search\<close> parameter when
  the request has one): a soft-deleted schema is not addressable.
\<close>

theorem populate_not_found:
  "status_code (fst (populate P db req pk)) = 404
     \<longleftrightarrow> \<not> list_ex (\<lambda>t. ts_id t = pk \<and> visible P req t) (schemas db)"
  by (auto simp: populate_def get_object_None [symmetric] split: option.splits sum.splits prod.splits)

text \<open>
  At the schema \<open>employees\<close>, active: not 404.
\<close>

theorem populate_not_found_witness:
  "list_ex (\<lambda>t. ts_id t = 1 \<and> visible sample_platform (populate_request [entry_1]) t)
     (schemas employees_db)
   \<and> status_code (fst (populate sample_platform employees_db (populate_request [entry_1]) 1)) \<noteq> 404"
proof -
  have "list_ex (\<lambda>t. ts_id t = 1 \<and> visible sample_platform (populate_request [entry_1]) t)
          (schemas employees_db)"
    by (simp add: employees_db_def employees_def visible_def populate_request_def)
  then show ?thesis
    using populate_not_found [of sample_platform employees_db "populate_request [entry_1]" 1]
    by simp
qed

text \<open>
  C4 as stated fails on the soft-deleted schema, which exists and whose populate
  is answered 404.
\<close>

theorem populate_not_found_counterexample:
  "list_ex (\<lambda>t. ts_id t = 1 \<and> \<not> ts_is_active t) (schemas retired_db)
   \<and> status_code (fst (populate sample_platform retired_db (populate_request [entry_1]) 1)) = 404"
  by (simp add: populate_def get_object_def get_queryset_def retired_db_def employees_def
      populate_request_def)

subsection \<open>C5: creating a schema\<close>

lemma field_description_ok:
  "description_ok P v \<Longrightarrow>
   \<exists>d. field_description P v = Inr d \<and> (case d of None \<Rightarrow> [] | Some x \<Rightarrow> x) = stored_description P v"
  by (auto simp: description_ok_def stored_description_def field_description_def CharField_def
      to_internal_value_def run_validators_def no_validators_def Let_def
      split: option.splits json.splits)

lemma field_is_active_ok:
  "flag_ok v \<Longrightarrow>
   \<exists>a. field_is_active P v = Inr a \<and> (case a of None \<Rightarrow> True | Some b \<Rightarrow> b) = stored_flag v"
  by (auto simp: flag_ok_def stored_flag_def field_is_active_def split: option.splits json.splits)

lemma create_schema_fields:
  assumes "request_data req = JObj kvs"
    and "map_of kvs (ascii ''name'') = Some (JStr n)"
    and "py_strip P n \<noteq> []" "length (py_strip P n) \<le> 100" "\<not> prohibited P (py_strip P n)"
    and "field_description P (map_of kvs (ascii ''description'')) = Inr d"
    and "field_is_active P (map_of kvs (ascii ''is_active'')) = Inr a"
  shows "(status_code (fst (TableSchemaViewSet_create P db req)) = 201
            \<longleftrightarrow> well_formed_config (map_of kvs (ascii ''fields_config''))
                \<and> \<not> collides db (py_strip P n))
       \<and> (status_code (fst (TableSchemaViewSet_create P db req)) \<noteq> 201
            \<longrightarrow> (\<exists>errors. fst (TableSchemaViewSet_create P db req) = Response (Field_errors errors) 400)
                \<and> snd (TableSchemaViewSet_create P db req) = db)
       \<and> (status_code (fst (TableSchemaViewSet_create P db req)) = 201
            \<longrightarrow> (\<exists>schema. fst (TableSchemaViewSet_create P db req) = Response (Schema schema) 201
                   \<and> schemas (snd (TableSchemaViewSet_create P db req)) = schemas db @ [schema]
                   \<and> ts_name schema = py_strip P n
                   \<and> Some (ts_fields_config schema) = map_of kvs (ascii ''fields_config'')
                   \<and> ts_description schema = (case d of None \<Rightarrow> [] | Some x \<Rightarrow> x)
                   \<and> ts_is_active schema = (case a of None \<Rightarrow> True | Some b \<Rightarrow> b)))"
proof (cases "well_formed_config (map_of kvs (ascii ''fields_config'')) \<and> \<not> collides db (py_strip P n)")
  case True
  then obtain c where c: "map_of kvs (ascii ''fields_config'') = Some c"
    by (auto simp: well_formed_config_def split: option.splits)
  have "TableSchemaSerializer P db (request_data req) = Inr (py_strip P n, d, c, a)"
    using serializer_schema [OF assms(2-7), of db] True c assms(1) by simp
  then show ?thesis
    using True c by (simp add: TableSchemaViewSet_create_def Let_def)
next
  case False
  have "\<exists>errors. TableSchemaSerializer P db (request_data req) = Inl errors"
    using serializer_schema [OF assms(2-7), of db] False assms(1) by simp
  then show ?thesis
    using False by (auto simp: TableSchemaViewSet_create_def)
qed

lemma strip_goods: "py_strip sample_platform (ascii '' goods '') = ascii ''goods''"
  by (simp add: sample_platform_def ascii_def)

text \<open>
  C5, as amended. For a request whose \<open>name\<close> is a string that, once trimmed, is not
  blank, has at most 100 characters and no prohibited character, whose
  \<open>description\<close>, when given, is a string without prohibited characters and whose
  \<open>is_active\<close>, when given, is a JSON boolean: creation is answered 201 exactly when
  \<open>fields_config\<close> is well formed and the trimmed name does not collide; otherwise it
  is answered 400 with field errors and the database is unchanged; on success the
  new schema is appended with the name and the description as supplied apart from
  the whitespace trimmed at their ends, the \<open>fields_config\<close> and the active flag
  exactly as supplied, and an empty description and a set flag where none is
  supplied.
\<close>

theorem create_schema:
  assumes "body_field (request_data req) (ascii ''name'') = Some (JStr n)"
    and "py_strip P n \<noteq> []" "length (py_strip P n) \<le> 100" "\<not> prohibited P (py_strip P n)"
    and "description_ok P (body_field (request_data req) (ascii ''description''))"
    and "flag_ok (body_field (request_data req) (ascii ''is_active''))"
  shows "(status_code (fst (TableSchemaViewSet_create P db req)) = 201
            \<longleftrightarrow> well_formed_config (body_field (request_data req) (ascii ''fields_config''))
                \<and> \<not> collides db (py_strip P n))
       \<and> (status_code (fst (TableSchemaViewSet_create P db req)) \<noteq> 201
            \<longrightarrow> (\<exists>errors. fst (TableSchemaViewSet_create P db req) = Response (Field_errors errors) 400)
                \<and> snd (TableSchemaViewSet_create P db req) = db)
       \<and> (status_code (fst (TableSchemaViewSet_create P db req)) = 201
            \<longrightarrow> (\<exists>schema. fst (TableSchemaViewSet_create P db req) = Response (Schema schema) 201
                   \<and> schemas (snd (TableSchemaViewSet_create P db req)) = schemas db @ [schema]
                   \<and> ts_name schema = py_strip P n
                   \<and> Some (ts_fields_config schema)
                       = body_field (request_data req) (ascii ''fields_config'')
                   \<and> ts_description schema
                       = stored_description P (body_field (request_data req) (ascii ''description''))
                   \<and> ts_is_active schema
                       = stored_flag (body_field (request_data req) (ascii ''is_active''))))"
proof -
  obtain kvs where kvs: "request_data req = JObj kvs"
    using assms(1) by (cases "request_data req") (simp_all add: body_field_def)
  have bf: "\<And>k. body_field (request_data req) k = map_of kvs k"
    by (simp add: kvs body_field_def)
  obtain d where d: "field_description P (map_of kvs (ascii ''description'')) = Inr d"
      "(case d of None \<Rightarrow> [] | Some x \<Rightarrow> x) = stored_description P (map_of kvs (ascii ''description''))"
    using field_description_ok [OF assms(5)] bf by auto
  obtain a where a: "field_is_active P (map_of kvs (ascii ''is_active'')) = Inr a"
      "(case a of None \<Rightarrow> True | Some b \<Rightarrow> b) = stored_flag (map_of kvs (ascii ''is_active''))"
    using field_is_active_ok [OF assms(6)] bf by auto
  have n: "map_of kvs (ascii ''name'') = Some (JStr n)"
    using assms(1) bf by simp
  show ?thesis
    using create_schema_fields [OF kvs n assms(2-4) d(1) a(1), of db]
    unfolding bf d(2) a(2) .
qed

text \<open>
  At the creation of \<open>products\<close> beside \<open>employees\<close>, with a padded description and
  the flag cleared.
\<close>

theorem create_schema_witness:
  "body_field (request_data described_request) (ascii ''description'') = Some (JStr (ascii '' goods ''))
   \<and> body_field (request_data described_request) (ascii ''is_active'') = Some (JBool False)
   \<and> well_formed_config (body_field (request_data described_request) (ascii ''fields_config''))
   \<and> \<not> collides employees_db (ascii ''products'')
   \<and> fst (TableSchemaViewSet_create sample_platform employees_db described_request)
       = Response (Schema goods) 201
   \<and> schemas (snd (TableSchemaViewSet_create sample_platform employees_db described_request))
       = [employees, goods]"
proof -
  let ?r = "TableSchemaViewSet_create sample_platform employees_db described_request"
  have f: "body_field (request_data described_request) (ascii ''name'') = Some (JStr (ascii ''products''))"
    "body_field (request_data described_request) (ascii ''description'') = Some (JStr (ascii '' goods ''))"
    "body_field (request_data described_request) (ascii ''fields_config'') = Some products_config"
    "body_field (request_data described_request) (ascii ''is_active'') = Some (JBool False)"
    by (simp_all add: body_field_def described_request_def ascii_def)
  have s: "py_strip sample_platform (ascii ''products'') = ascii ''products''"
    by (rule sample_strip) (simp add: ascii_def)
  have h2: "py_strip sample_platform (ascii ''products'') \<noteq> []"
    unfolding s by (simp add: ascii_def)
  have h3: "length (py_strip sample_platform (ascii ''products'')) \<le> 100"
    unfolding s by (simp add: ascii_def)
  have h4: "\<not> prohibited sample_platform (py_strip sample_platform (ascii ''products''))"
    unfolding s by (simp add: sample_platform_def ascii_def)
  have h5: "description_ok sample_platform (body_field (request_data described_request) (ascii ''description''))"
    unfolding f by (simp add: description_ok_def strip_goods) (simp add: sample_platform_def ascii_def)
  have h6: "flag_ok (body_field (request_data described_request) (ascii ''is_active''))"
    unfolding f by (simp add: flag_ok_def)
  have nc: "\<not> collides employees_db (ascii ''products'')"
    by (simp add: collides_def employees_db_def employees_def ascii_def)
  have wf: "well_formed_config (body_field (request_data described_request) (ascii ''fields_config''))"
    unfolding f by (rule products_config_ok)
  note t = create_schema [OF f(1) h2 h3 h4 h5 h6, of employees_db]
  have ok: "status_code (fst ?r) = 201"
    using t wf nc s by simp
  then obtain schema where sc: "fst ?r = Response (Schema schema) 201"
      "schemas (snd ?r) = schemas employees_db @ [schema]"
      "ts_name schema = py_strip sample_platform (ascii ''products'')"
      "Some (ts_fields_config schema) = body_field (request_data described_request) (ascii ''fields_config'')"
      "ts_description schema
         = stored_description sample_platform (body_field (request_data described_request) (ascii ''description''))"
      "ts_is_active schema = stored_flag (body_field (request_data described_request) (ascii ''is_active''))"
    using t by blast
  have id: "ts_id schema = 2"
    using sc(1)
    by (auto simp: TableSchemaViewSet_create_def Let_def employees_db_def
        split: sum.splits prod.splits)
  have "schema = goods"
    using sc(3-6) id unfolding f s
    by (cases schema) (simp add: goods_def stored_description_def stored_flag_def strip_goods)
  then show ?thesis
    using sc(1,2) f(2,4) wf nc by (simp add: employees_db_def)
qed

text \<open>
  C5 as stated fails for a name longer than the 100 characters the model declares:
  the configuration is well formed and the name is new, and creation is answered
  400.
\<close>

theorem create_schema_counterexample:
  "well_formed_config (Some products_config)
   \<and> \<not> collides employees_db long_name
   \<and> TableSchemaViewSet_create sample_platform employees_db (create_request long_name)
       = (Response (Field_errors [(ascii ''name'', [MaxLength 100])]) 400, employees_db)"
proof -
  have s: "py_strip sample_platform long_name = long_name"
    by (rule sample_strip) (simp add: long_name_def)
  have p: "\<not> prohibited sample_platform long_name"
    by (simp add: sample_platform_def long_name_def)
  have l: "length long_name = 101" "long_name \<noteq> []"
    by (simp_all add: long_name_def)
  have u: "UniqueValidator employees_db long_name = []"
    using employees_not_long by (simp add: UniqueValidator_def employees_db_def employees_def)
  have n: "CharField sample_platform (UniqueValidator employees_db) (Some 100) False
             (Some (JStr long_name)) = Inl [MaxLength 100]"
    using s p u l by (simp add: CharField_def to_internal_value_def run_validators_def)
  have c: "field_fields_config (Some products_config) = Inr products_config"
    using products_config_ok by (simp add: field_fields_config_Inr)
  have "TableSchemaSerializer sample_platform employees_db
          (request_data (create_request long_name))
        = Inl [(ascii ''name'', [MaxLength 100])]"
    using n c
    by (simp add: TableSchemaSerializer_def create_request_def ascii_def field_description_def
        field_is_active_def errors_of_def)
  moreover have "\<not> collides employees_db long_name"
    using employees_not_long by (simp add: collides_def employees_db_def employees_def)
  ultimately show ?thesis
    using products_config_ok by (simp add: TableSchemaViewSet_create_def)
qed

subsection \<open>C6: who updates a record\<close>

text \<open>
  C6, as amended. The record resource has all the actions of a \<open>ModelViewSet\<close>;
  populate only appends rows and \<open>clear_data\<close> only removes the rows of its schema,
  so neither changes a field of a row that stays; a partial update through the
  record resource, on a row of its queryset with a payload that is not null and a
  storage engine that accepts it, replaces the payload of that row.
\<close>

theorem records_updated_only_by_record_resource:
  "TableDataViewSet_actions = [List, Create, Retrieve, Update, Partial_update, Destroy]
   \<and> (\<exists>created. rows (snd (populate P db req pk)) = rows db @ created)
   \<and> (rows (snd (clear_data P db req pk)) = rows db
        \<or> rows (snd (clear_data P db req pk)) = filter (\<lambda>r. td_schema r \<noteq> pk) (rows db))
   \<and> (find (\<lambda>r. td_id r = row_pk) (TableDataViewSet_get_queryset db req') = Some obj
        \<and> v \<noteq> JNull \<and> db_fault P db (obj\<lparr>td_data := v\<rparr>) = None
        \<longrightarrow> fst (TableDataViewSet_partial_update P db req' row_pk v)
              = Response (Entry (obj\<lparr>td_data := v\<rparr>) (schema_name db obj)) 200
          \<and> rows (snd (TableDataViewSet_partial_update P db req' row_pk v))
              = map (\<lambda>r. if td_id r = row_pk then obj\<lparr>td_data := v\<rparr> else r) (rows db))"
proof -
  have a: "TableDataViewSet_actions = [List, Create, Retrieve, Update, Partial_update, Destroy]"
    by (simp add: TableDataViewSet_actions_def ModelViewSet_def)
  have c: "rows (snd (clear_data P db req pk)) = rows db
        \<or> rows (snd (clear_data P db req pk)) = filter (\<lambda>r. td_schema r \<noteq> pk) (rows db)"
  proof (cases "get_object P db req pk")
    case None
    then show ?thesis by (simp add: clear_data_def)
  next
    case (Some schema)
    then have "ts_id schema = pk" using get_object_Some by blast
    then show ?thesis using Some by (simp add: clear_data_def Let_def)
  qed
  have u: "fst (TableDataViewSet_partial_update P db req' row_pk v)
              = Response (Entry (obj\<lparr>td_data := v\<rparr>) (schema_name db obj)) 200
          \<and> rows (snd (TableDataViewSet_partial_update P db req' row_pk v))
              = map (\<lambda>r. if td_id r = row_pk then obj\<lparr>td_data := v\<rparr> else r) (rows db)"
    if "find (\<lambda>r. td_id r = row_pk) (TableDataViewSet_get_queryset db req') = Some obj"
      "v \<noteq> JNull" "db_fault P db (obj\<lparr>td_data := v\<rparr>) = None"
    using that
    by (cases v) (simp_all add: TableDataViewSet_partial_update_def Let_def schema_name_def)
  show ?thesis
    using a populate_appends c u by blast
qed

text \<open>
  At two schemas with a record each.
\<close>

theorem records_updated_witness:
  "find (\<lambda>r. td_id r = 2) (TableDataViewSet_get_queryset two_schema_db plain_request) = Some row_2
   \<and> rows (snd (TableDataViewSet_partial_update sample_platform two_schema_db plain_request 2 entry_1))
       = [row_1, row_2\<lparr>td_data := entry_1\<rparr>]
   \<and> (\<exists>created. rows (snd (populate sample_platform two_schema_db (populate_request [entry_1]) 1))
                   = [row_1, row_2] @ created)"
proof -
  have f: "find (\<lambda>r. td_id r = 2) (TableDataViewSet_get_queryset two_schema_db plain_request) = Some row_2"
    by (simp add: TableDataViewSet_get_queryset_def two_schema_db_def plain_request_def row_1_def
        row_2_def Let_def)
  have v: "entry_1 \<noteq> JNull"
    by (simp add: entry_1_def)
  have d: "db_fault sample_platform two_schema_db (row_2\<lparr>td_data := entry_1\<rparr>) = None"
    by (simp add: sample_platform_def)
  have r: "rows two_schema_db = [row_1, row_2]"
    by (simp add: two_schema_db_def)
  have i: "td_id row_1 \<noteq> 2" "td_id row_2 = 2"
    by (simp_all add: row_1_def row_2_def)
  show ?thesis
    using records_updated_only_by_record_resource
      [where P = sample_platform and db = two_schema_db and req = "populate_request [entry_1]"
         and pk = 1 and req' = plain_request and row_pk = 2 and obj = row_2 and v = entry_1]
      f v d r i
    by simp
qed

text \<open>
  C6 as stated fails: \<open>partial_update\<close> is an action of the record resource, and it
  replaces the payload of the stored record.
\<close>

theorem records_updated_counterexample:
  "Partial_update \<in> set TableDataViewSet_actions
   \<and> rows one_row_db = [row_1]
   \<and> rows (snd (TableDataViewSet_partial_update sample_platform one_row_db plain_request 1 entry_null_id))
       = [row_1\<lparr>td_data := entry_null_id\<rparr>]
   \<and> td_data row_1 \<noteq> entry_null_id"
  by (simp add: TableDataViewSet_actions_def ModelViewSet_def TableDataViewSet_partial_update_def
      TableDataViewSet_get_queryset_def one_row_db_def plain_request_def row_1_def
      entry_null_id_def entry_1_def sample_platform_def Let_def ascii_def)

subsection \<open>C7: clearing a schema\<close>

text \<open>
  C7, as amended. For a schema that \<open>get_object\<close> resolves and that holds \<open>K\<close> rows,
  \<open>clear_data\<close> answers 200 with a message that gives \<open>K\<close> in decimal, the table has \<open>K\<close>
  rows less, no row of the schema is left, and the \<open>data\<close> action of the schema then
  returns the empty sequence.
\<close>

theorem clear_data_deletes:
  assumes "get_object P db req pk = Some schema"
    and "K = length (filter (\<lambda>r. td_schema r = pk) (rows db))"
  shows "fst (clear_data P db req pk)
           = Response (Message (msg_deleted_prefix @ digits K @ msg_deleted_from
                                 @ ts_name schema @ [34])) 200
       \<and> length (rows (snd (clear_data P db req pk))) + K = length (rows db)
       \<and> data_entries (snd (clear_data P db req pk)) schema = []
       \<and> TableSchemaViewSet_data P (snd (clear_data P db req pk)) req pk = Response (Entries []) 200"
proof -
  have pk: "ts_id schema = pk"
    using get_object_Some [OF assms(1)] by simp
  let ?db' = "db\<lparr>rows := filter (\<lambda>r. td_schema r \<noteq> pk) (rows db)\<rparr>"
  have cl: "clear_data P db req pk
              = (Response (Message (msg_deleted_prefix @ digits K @ msg_deleted_from
                                     @ ts_name schema @ [34])) 200, ?db')"
    using assms pk by (simp add: clear_data_def Let_def)
  have len: "length (rows ?db') + K = length (rows db)"
    using assms(2) sum_length_filter_compl [of "\<lambda>r. td_schema r = pk" "rows db"] by simp
  have empty: "data_entries ?db' schema = []"
    using pk by (simp add: data_entries_def)
  have "get_object P ?db' req pk = Some schema"
    using assms(1) by (simp add: get_object_rows)
  then have "TableSchemaViewSet_data P ?db' req pk = Response (Entries []) 200"
    using empty by (simp add: TableSchemaViewSet_data_def)
  then show ?thesis
    using cl len empty by simp
qed

text \<open>
  At the schema \<open>employees\<close> holding one row.
\<close>

theorem clear_data_deletes_witness:
  "get_object sample_platform one_row_db plain_request 1 = Some employees
   \<and> fst (clear_data sample_platform one_row_db plain_request 1)
       = Response (Message (msg_deleted_prefix @ ascii ''1'' @ msg_deleted_from
                             @ ascii ''employees'' @ [34])) 200
   \<and> rows (snd (clear_data sample_platform one_row_db plain_request 1)) = []
   \<and> TableSchemaViewSet_data sample_platform (snd (clear_data sample_platform one_row_db plain_request 1))
        plain_request 1 = Response (Entries []) 200"
proof -
  have h1: "get_object sample_platform one_row_db plain_request 1 = Some employees"
    by (simp add: get_object_def get_queryset_def one_row_db_def employees_def plain_request_def)
  have h2: "1 = length (filter (\<lambda>r. td_schema r = 1) (rows one_row_db))"
    by (simp add: one_row_db_def row_1_def)
  have d: "digits 1 = ascii ''1''"
    by (simp add: digits.simps ascii_def)
  have n: "ts_name employees = ascii ''employees''"
    by (simp add: employees_def)
  have l: "length (rows one_row_db) = 1"
    by (simp add: one_row_db_def)
  show ?thesis
    using clear_data_deletes [OF h1 h2] h1 d n l by simp
qed

text \<open>
  C7 as stated fails on the soft-deleted schema, which holds one row: \<open>clear_data\<close>
  answers 404 and deletes nothing.
\<close>

theorem clear_data_deletes_counterexample:
  "length (filter (\<lambda>r. td_schema r = 1) (rows retired_db)) = 1
   \<and> clear_data sample_platform retired_db plain_request 1 = (Response Not_found 404, retired_db)"
  by (simp add: clear_data_def get_object_def get_queryset_def retired_db_def employees_def
      plain_request_def row_1_def)

subsection \<open>C8: the canonical record\<close>




lemma take_app: "length a = n \<Longrightarrow> take n (a @ r) = a"
  by simp

lemma drop_app: "length a = n \<Longrightarrow> drop n (a @ r) = r"
  by simp

















lemma user_primitive: "all_primitive (User_to_table_data u)"
  by (simp add: User_to_table_data_def all_primitive_def split: option.splits)






lemma digits_small: "n < 10 \<Longrightarrow> digits n = [48 + n]"
  by (subst digits.simps) simp




subsection \<open>C9: the outcome of a push\<close>

lemma post_sends:
  "encodable net (json_data r) \<Longrightarrow>
   requests_post net r = (remote net (length (sent net)), net\<lparr>sent := sent net @ [r]\<rparr>)"
  by (simp add: requests_post_def encodable_def)

lemma post_fails:
  "\<not> encodable net (json_data r) \<Longrightarrow> requests_post net r = (OtherException msg_not_serializable, net)"
  by (simp add: requests_post_def encodable_def)

lemma user_encodable: "encodable net (map User_to_table_data us)"
  by (simp add: encodable_def list_all_iff user_primitive)

lemma user_single:
  "fst (User_sync_to_core_service CORE_SERVICE_URL net u)
     = (classify (remote net (length (sent net))) = Some Success)
   \<and> length (sent (snd (User_sync_to_core_service CORE_SERVICE_URL net u))) = Suc (length (sent net))"
proof -
  have "encodable net [User_to_table_data u]"
    using user_encodable [of net "[u]"] by simp
  then show ?thesis
    by (cases "remote net (length (sent net))")
       (simp_all add: User_sync_to_core_service_def post_sends)
qed

lemma product_single:
  assumes "encodable net [Product_to_table_data p]"
  shows "fst (Product_sync_to_core_service CORE_SERVICE_URL net p schema_id)
           = (classify (remote net (length (sent net))) = Some Success)
       \<and> length (sent (snd (Product_sync_to_core_service CORE_SERVICE_URL net p schema_id)))
           = Suc (length (sent net))"
  using assms
  by (cases "remote net (length (sent net))")
     (simp_all add: Product_sync_to_core_service_def post_sends)

lemma product_single_true:
  "fst (Product_sync_to_core_service CORE_SERVICE_URL net p schema_id)
     \<Longrightarrow> classify (remote net (length (sent net))) = Some Success"
proof (cases "encodable net [Product_to_table_data p]")
  case True
  then show "fst (Product_sync_to_core_service CORE_SERVICE_URL net p schema_id)
     \<Longrightarrow> classify (remote net (length (sent net))) = Some Success"
    using product_single by blast
next
  case False
  then show "fst (Product_sync_to_core_service CORE_SERVICE_URL net p schema_id)
     \<Longrightarrow> classify (remote net (length (sent net))) = Some Success"
    by (simp add: Product_sync_to_core_service_def post_fails)
qed

lemma user_bulk:
  assumes "sent (snd (UserViewSet_sync_to_core CORE_SERVICE_URL all_users net validated)) \<noteq> sent net"
  shows "length (sent (snd (UserViewSet_sync_to_core CORE_SERVICE_URL all_users net validated)))
              = Suc (length (sent net))
          \<and> (classify (remote net (length (sent net))) = Some Success
               \<longleftrightarrow> sync_status (fst (UserViewSet_sync_to_core CORE_SERVICE_URL all_users net validated)) = Some 200)
          \<and> (\<forall>status text. classify (remote net (length (sent net))) = Some (Rejected status text)
               \<longrightarrow> fst (UserViewSet_sync_to_core CORE_SERVICE_URL all_users net validated)
                     = Sync_response (Core_error (msg_core_error @ digits status) text) 502)
          \<and> (\<forall>e. remote net (length (sent net)) = RequestException e
               \<longrightarrow> fst (UserViewSet_sync_to_core CORE_SERVICE_URL all_users net validated)
                     = Sync_response (Sync_error (msg_no_connection @ e)) 503)"
  using assms
  by (cases "remote net (length (sent net))")
     (auto simp: UserViewSet_sync_to_core_def post_sends user_encodable Let_def
        split: sum.splits prod.splits option.splits if_splits)

lemma product_bulk:
  assumes "sent (snd (ProductViewSet_sync_to_core CORE_SERVICE_URL all_products net validated)) \<noteq> sent net"
  shows "length (sent (snd (ProductViewSet_sync_to_core CORE_SERVICE_URL all_products net validated)))
              = Suc (length (sent net))
          \<and> (classify (remote net (length (sent net))) = Some Success
               \<longleftrightarrow> sync_status (fst (ProductViewSet_sync_to_core CORE_SERVICE_URL all_products net validated)) = Some 200)
          \<and> (\<forall>status text. classify (remote net (length (sent net))) = Some (Rejected status text)
               \<longrightarrow> fst (ProductViewSet_sync_to_core CORE_SERVICE_URL all_products net validated)
                     = Sync_response (Core_error (msg_core_error @ digits status) text) 502)
          \<and> (\<forall>e. remote net (length (sent net)) = RequestException e
               \<longrightarrow> fst (ProductViewSet_sync_to_core CORE_SERVICE_URL all_products net validated)
                     = Sync_response (Sync_error (msg_no_connection @ e)) 503)"
proof (cases validated)
  case (Inl errors)
  then show ?thesis
    using assms by (simp add: ProductViewSet_sync_to_core_def)
next
  case (Inr v)
  obtain schema_id product_ids include_inactive where v: "v = (schema_id, product_ids, include_inactive)"
    by (cases v)
  let ?qs = "products_to_sync all_products product_ids include_inactive"
  let ?req = "\<lparr>url = CORE_SERVICE_URL @ ascii ''/api/schemas/'' @ str_int schema_id @ ascii ''/populate/'',
               json_source_service = ascii ''product_service'',
               json_data = map Product_to_table_data ?qs, timeout = 30\<rparr>"
  have unfold: "ProductViewSet_sync_to_core CORE_SERVICE_URL all_products net validated
     = (if ?qs = [] then (Sync_response (Sync_error msg_no_products) 404, net)
        else (case requests_post net ?req of
                (Responded status text, net') \<Rightarrow>
                  if status = 201
                  then (Sync_response
                          (Synced (msg_synced @ digits (length (map Product_to_table_data ?qs)) @ msg_products)
                             (length (map Product_to_table_data ?qs)) schema_id) 200, net')
                  else (Sync_response (Core_error (msg_core_error @ digits status) text) 502, net')
              | (RequestException e, net') \<Rightarrow>
                  (Sync_response (Sync_error (msg_no_connection @ e)) 503, net')
              | (OtherException e, net') \<Rightarrow> (Unhandled e, net')))"
    using Inr v by (simp add: ProductViewSet_sync_to_core_def Let_def)
  have ne: "?qs \<noteq> []"
    using assms unfold by auto
  have enc: "encodable net (json_data ?req)"
  proof (rule ccontr)
    assume "\<not> encodable net (json_data ?req)"
    then have "requests_post net ?req = (OtherException msg_not_serializable, net)"
      by (rule post_fails)
    then show False
      using assms unfold ne by simp
  qed
  show ?thesis
    using ne unfold post_sends [OF enc]
    by (cases "remote net (length (sent net))") auto
qed

lemma sample_flags:
  "encodes_decimal declining_network = False" "sent declining_network = []"
  "encodes_decimal unreachable_network = False" "sent unreachable_network = []"
  "remote declining_network n = Responded 400 (ascii ''bad request'')"
  "remote unreachable_network n = RequestException (ascii ''timed out'')"
  "u_is_active sample_user" "p_status sample_product = ascii ''ACTIVE''"
  "p_status free_product = ascii ''ACTIVE''"
  by (simp_all add: declining_network_def unreachable_network_def sample_user_def
      sample_product_def free_product_def)

lemma free_product_primitive: "all_primitive (Product_to_table_data free_product)"
  by (simp add: all_primitive_def Product_to_table_data_def free_product_def
      sample_product_def profit_margin_def)

lemma free_product_encodable: "encodable net [Product_to_table_data free_product]"
  by (simp add: encodable_def free_product_primitive)

lemma sample_product_not_primitive: "\<not> all_primitive (Product_to_table_data sample_product)"
  by (simp add: all_primitive_def Product_to_table_data_def sample_product_def profit_margin_def)

text \<open>
  C9, as amended. The single-entity push of a user returns \<open>True\<close> exactly when the
  remote answers 201 and \<open>False\<close> in every other case, and sends exactly one request;
  so does the single-entity push of a product whose record can be encoded, and the
  push of any product returns \<open>True\<close> only when the remote answered 201. Neither
  raises. The bulk push of either service, when it sends at all, sends exactly one
  request; it answers 200 exactly when the remote answers 201, 502 with the remote's
  status and text on any other answer, and 503 with the text of the exception when
  the connection fails or times out.
\<close>

theorem sync_outcomes:
  "fst (User_sync_to_core_service CORE_SERVICE_URL net u)
     = (classify (remote net (length (sent net))) = Some Success)
   \<and> length (sent (snd (User_sync_to_core_service CORE_SERVICE_URL net u))) = Suc (length (sent net))
   \<and> (sent (snd (UserViewSet_sync_to_core CORE_SERVICE_URL all_users net validated)) \<noteq> sent net
        \<longrightarrow> length (sent (snd (UserViewSet_sync_to_core CORE_SERVICE_URL all_users net validated)))
              = Suc (length (sent net))
          \<and> (classify (remote net (length (sent net))) = Some Success
               \<longleftrightarrow> sync_status (fst (UserViewSet_sync_to_core CORE_SERVICE_URL all_users net validated)) = Some 200)
          \<and> (\<forall>status text. classify (remote net (length (sent net))) = Some (Rejected status text)
               \<longrightarrow> fst (UserViewSet_sync_to_core CORE_SERVICE_URL all_users net validated)
                     = Sync_response (Core_error (msg_core_error @ digits status) text) 502)
          \<and> (\<forall>e. remote net (length (sent net)) = RequestException e
               \<longrightarrow> fst (UserViewSet_sync_to_core CORE_SERVICE_URL all_users net validated)
                     = Sync_response (Sync_error (msg_no_connection @ e)) 503))
   \<and> (fst (Product_sync_to_core_service CORE_SERVICE_URL net p schema_id)
        \<longrightarrow> classify (remote net (length (sent net))) = Some Success)
   \<and> (encodable net [Product_to_table_data p]
        \<longrightarrow> fst (Product_sync_to_core_service CORE_SERVICE_URL net p schema_id)
              = (classify (remote net (length (sent net))) = Some Success)
          \<and> length (sent (snd (Product_sync_to_core_service CORE_SERVICE_URL net p schema_id)))
              = Suc (length (sent net)))
   \<and> (sent (snd (ProductViewSet_sync_to_core CORE_SERVICE_URL all_products net validated_p)) \<noteq> sent net
        \<longrightarrow> length (sent (snd (ProductViewSet_sync_to_core CORE_SERVICE_URL all_products net validated_p)))
              = Suc (length (sent net))
          \<and> (classify (remote net (length (sent net))) = Some Success
               \<longleftrightarrow> sync_status (fst (ProductViewSet_sync_to_core CORE_SERVICE_URL all_products net validated_p)) = Some 200)
          \<and> (\<forall>status text. classify (remote net (length (sent net))) = Some (Rejected status text)
               \<longrightarrow> fst (ProductViewSet_sync_to_core CORE_SERVICE_URL all_products net validated_p)
                     = Sync_response (Core_error (msg_core_error @ digits status) text) 502)
          \<and> (\<forall>e. remote net (length (sent net)) = RequestException e
               \<longrightarrow> fst (ProductViewSet_sync_to_core CORE_SERVICE_URL all_products net validated_p)
                     = Sync_response (Sync_error (msg_no_connection @ e)) 503))"
  using user_single [of CORE_SERVICE_URL net u]
    user_bulk [of CORE_SERVICE_URL all_users net validated]
    product_single_true [of CORE_SERVICE_URL net p schema_id]
    product_single [of net p CORE_SERVICE_URL schema_id]
    product_bulk [of CORE_SERVICE_URL all_products net validated_p]
  by (intro conjI impI) blast+

text \<open>
  At a remote that declines, for a user and for a product whose margin is the
  integer 0.
\<close>

theorem sync_outcomes_witness:
  "sent (snd (UserViewSet_sync_to_core core_url [sample_user] declining_network (Inr (1, None))))
     \<noteq> sent declining_network
   \<and> fst (UserViewSet_sync_to_core core_url [sample_user] declining_network (Inr (1, None)))
       = Sync_response (Core_error (msg_core_error @ digits 400) (ascii ''bad request'')) 502
   \<and> fst (User_sync_to_core_service core_url declining_network sample_user) = False
   \<and> encodable declining_network [Product_to_table_data free_product]
   \<and> fst (Product_sync_to_core_service core_url declining_network free_product 2) = False
   \<and> length (sent (snd (Product_sync_to_core_service core_url declining_network free_product 2)))
       = Suc (length (sent declining_network))
   \<and> sent (snd (ProductViewSet_sync_to_core core_url [free_product] declining_network
                  (Inr (2, None, False)))) \<noteq> sent declining_network
   \<and> fst (ProductViewSet_sync_to_core core_url [free_product] declining_network (Inr (2, None, False)))
       = Sync_response (Core_error (msg_core_error @ digits 400) (ascii ''bad request'')) 502"
proof -
  let ?r = "remote declining_network (length (sent declining_network))"
  have a: "sent (snd (UserViewSet_sync_to_core core_url [sample_user] declining_network (Inr (1, None))))
             \<noteq> sent declining_network"
    by (simp add: UserViewSet_sync_to_core_def requests_post_def user_primitive sample_flags Let_def)
  have c: "classify ?r = Some (Rejected 400 (ascii ''bad request''))"
    by (simp add: sample_flags)
  have n: "classify ?r \<noteq> Some Success"
    by (simp add: sample_flags)
  have q: "products_to_sync [free_product] None False = [free_product]"
    by (simp add: products_to_sync_def sample_flags)
  have f: "sent (snd (ProductViewSet_sync_to_core core_url [free_product] declining_network
                        (Inr (2, None, False)))) \<noteq> sent declining_network"
    by (simp add: ProductViewSet_sync_to_core_def q requests_post_def free_product_primitive
        sample_flags Let_def)
  have e: "encodable declining_network [Product_to_table_data free_product]"
    by (rule free_product_encodable)
  note t = sync_outcomes [where CORE_SERVICE_URL = core_url and net = declining_network
        and u = sample_user and all_users = "[sample_user]" and validated = "Inr (1, None)"
        and p = free_product and schema_id = 2 and all_products = "[free_product]"
        and validated_p = "Inr (2, None, False)"]
  have u1: "fst (User_sync_to_core_service core_url declining_network sample_user) = False"
    using t n by blast
  have u2: "fst (UserViewSet_sync_to_core core_url [sample_user] declining_network (Inr (1, None)))
       = Sync_response (Core_error (msg_core_error @ digits 400) (ascii ''bad request'')) 502"
    using t a c by blast
  have p1: "fst (Product_sync_to_core_service core_url declining_network free_product 2) = False"
    using t n by blast
  have p2: "length (sent (snd (Product_sync_to_core_service core_url declining_network free_product 2)))
       = Suc (length (sent declining_network))"
    using t e by blast
  have p3: "fst (ProductViewSet_sync_to_core core_url [free_product] declining_network (Inr (2, None, False)))
       = Sync_response (Core_error (msg_core_error @ digits 400) (ascii ''bad request'')) 502"
    using t f c by blast
  show ?thesis
    using a u2 u1 e p1 p2 f p3 by (intro conjI)
qed

text \<open>
  C9 as stated fails for the single-entity push: a remote that declines with 400 and
  a remote that cannot be reached give the same result \<open>False\<close>, which carries
  neither the remote's status and detail nor the difference between the two.
\<close>

theorem sync_outcomes_counterexample:
  "classify (remote declining_network 0) = Some (Rejected 400 (ascii ''bad request''))
   \<and> classify (remote unreachable_network 0) = Some Unavailable
   \<and> fst (User_sync_to_core_service core_url declining_network sample_user) = False
   \<and> fst (User_sync_to_core_service core_url unreachable_network sample_user) = False"
  using user_single [of core_url declining_network sample_user]
    user_single [of core_url unreachable_network sample_user]
  by (simp add: sample_flags)

text \<open>
  A product whose margin is a \<open>Decimal\<close>, with the encoder of the standard library:
  no request leaves; the single-entity push returns \<open>False\<close> and the bulk view is
  left by the \<open>TypeError\<close>.
\<close>

lemma product_push_not_encodable:
  "Product_sync_to_core_service core_url declining_network sample_product 2
     = (False, declining_network)
   \<and> ProductViewSet_sync_to_core core_url [sample_product] declining_network (Inr (2, None, False))
     = (Unhandled msg_not_serializable, declining_network)"
  by (simp add: Product_sync_to_core_service_def ProductViewSet_sync_to_core_def
      products_to_sync_def Let_def requests_post_def sample_product_not_primitive sample_flags)

subsection \<open>C10: clearing leaves the other schemas alone\<close>

text \<open>
  C10. Whatever the request, the rows of every schema other than the target are the
  same after \<open>clear_data\<close> as before, in the same order, and the schemas are
  unchanged.
\<close>

theorem clear_data_frame:
  "filter (\<lambda>r. td_schema r \<noteq> pk) (rows (snd (clear_data P db req pk)))
     = filter (\<lambda>r. td_schema r \<noteq> pk) (rows db)
   \<and> schemas (snd (clear_data P db req pk)) = schemas db"
proof (cases "get_object P db req pk")
  case None
  then show ?thesis by (simp add: clear_data_def)
next
  case (Some schema)
  then have "ts_id schema = pk"
    using get_object_Some by blast
  then show ?thesis
    using Some by (simp add: clear_data_def Let_def)
qed

text \<open>
  At two schemas with a record each, clearing the first.
\<close>

theorem clear_data_frame_witness:
  "rows (snd (clear_data sample_platform two_schema_db plain_request 1)) = [row_2]
   \<and> filter (\<lambda>r. td_schema r \<noteq> 1) (rows two_schema_db) = [row_2]"
proof -
  have f: "filter (\<lambda>r. td_schema r \<noteq> 1) (rows two_schema_db) = [row_2]"
    by (simp add: two_schema_db_def row_1_def row_2_def)
  have g: "get_object sample_platform two_schema_db plain_request 1 = Some employees"
    by (simp add: get_object_def get_queryset_def two_schema_db_def employees_def products_def
        plain_request_def)
  have c: "rows (snd (clear_data sample_platform two_schema_db plain_request 1))
             = filter (\<lambda>r. td_schema r \<noteq> 1) (rows two_schema_db)"
    using g by (simp add: clear_data_def Let_def employees_def)
  show ?thesis
    using clear_data_frame [where pk = 1 and P = sample_platform and db = two_schema_db
        and req = plain_request] f c
    by simp
qed

end
